theory Spec2Isabelle
  imports Main "HOL-Library.AList"
begin

section \<open>JavaScript values\<close>

text \<open>
  The component \<^verbatim>\<open>LogisticsObjectForm.jsx\<close> is dynamically typed: the same handler
  receives strings, booleans and numbers, and the record it edits is JSON. The values
  are modelled by one datatype. An object is an association list of its own
  properties, read with \<open>map_of\<close> and written with \<open>AList.update\<close> (an existing key
  keeps its place, a new key goes last, as in JavaScript).

  Numbers are exact decimals \<open>Dec m e\<close>, standing for \<open>m * 10 ^ e\<close>, with \<open>NaN\<close> and
  the two infinities beside them. The rounding of binary64 is not modelled, and
  neither is the sign of zero. Strings are lists of bytes, where JavaScript counts
  UTF-16 code units; the two agree on ASCII text.
\<close>

datatype jsnum = NaN | Infinity bool | Dec int int

datatype jsv =
    JUndefined
  | JNull
  | JBool bool
  | JNum jsnum
  | JStr string
  | JArr "jsv list"
  | JObj "(string \<times> jsv) list"

abbreviation JInt :: "int \<Rightarrow> jsv" where
  "JInt i \<equiv> JNum (Dec i 0)"

subsection \<open>Numbers and their strings\<close>

text \<open>Trailing zeros of the mantissa move into the exponent; zero is \<open>(0, 0)\<close>.\<close>

function strip_zeros :: "int \<Rightarrow> int \<Rightarrow> int \<times> int" where
  "strip_zeros m e =
     (if m = 0 then (0, 0)
      else if m mod 10 = 0 then strip_zeros (m div 10) (e + 1)
      else (m, e))"
  by pat_completeness auto
termination
  by (relation "measure (\<lambda>(m, e). nat \<bar>m\<bar>)") auto

declare strip_zeros.simps [simp del]

definition digit :: "nat \<Rightarrow> char" where
  "digit n = ''0123456789'' ! (n mod 10)"

function digits :: "nat \<Rightarrow> string" where
  "digits n = (if n < 10 then [digit n] else digits (n div 10) @ [digit n])"
  by pat_completeness auto
termination
  by (relation "measure id") auto

declare digits.simps [simp del]

definition is_digit :: "char \<Rightarrow> bool" where
  "is_digit c = (c \<in> set ''0123456789'')"

definition digit_val :: "char \<Rightarrow> nat" where
  "digit_val c = of_char c - 48"

definition nat_of_digits :: "string \<Rightarrow> nat" where
  "nat_of_digits ds = foldl (\<lambda>a c. 10 * a + digit_val c) 0 ds"

text \<open>
  \<^verbatim>\<open>Number.prototype.toString\<close> (radix 10): with \<open>k\<close> significant digits \<open>s\<close> and the
  decimal point after \<open>n\<close> of them, plain digits while \<open>0 < n \<le> 21\<close>, leading zeros
  while \<open>-6 < n \<le> 0\<close>, the exponent form otherwise.
\<close>

definition num_to_string :: "jsnum \<Rightarrow> string" where
  "num_to_string x =
     (case x of
        NaN \<Rightarrow> ''NaN''
      | Infinity neg \<Rightarrow> (if neg then ''-Infinity'' else ''Infinity'')
      | Dec m0 e0 \<Rightarrow>
          (case strip_zeros m0 e0 of (m, e) \<Rightarrow>
            if m = 0 then ''0''
            else
              let sgn = (if m < 0 then ''-'' else '''');
                  s = digits (nat \<bar>m\<bar>);
                  k = int (length s);
                  n = e + k
              in if k \<le> n \<and> n \<le> 21 then sgn @ s @ replicate (nat (n - k)) (CHR ''0'')
                 else if 0 < n \<and> n \<le> 21 then sgn @ take (nat n) s @ ''.'' @ drop (nat n) s
                 else if -6 < n \<and> n \<le> 0 then sgn @ ''0.'' @ replicate (nat (- n)) (CHR ''0'') @ s
                 else
                   let ex = n - 1;
                       es = (if ex < 0 then ''-'' else ''+'') @ digits (nat \<bar>ex\<bar>)
                   in if k = 1 then sgn @ s @ ''e'' @ es
                      else sgn @ [hd s] @ ''.'' @ tl s @ ''e'' @ es))"

subsection \<open>Truthiness, \<^verbatim>\<open>||\<close>, \<^verbatim>\<open>String\<close>\<close>

fun truthy :: "jsv \<Rightarrow> bool" where
  "truthy JUndefined = False"
| "truthy JNull = False"
| "truthy (JBool b) = b"
| "truthy (JNum NaN) = False"
| "truthy (JNum (Infinity neg)) = True"
| "truthy (JNum (Dec m e)) = (m \<noteq> 0)"
| "truthy (JStr s) = (s \<noteq> [])"
| "truthy (JArr xs) = True"
| "truthy (JObj kvs) = True"

definition js_or :: "jsv \<Rightarrow> jsv \<Rightarrow> jsv" where
  "js_or a b = (if truthy a then a else b)"

text \<open>
  \<^verbatim>\<open>String(v)\<close>. An array joins the strings of its elements with commas, \<^verbatim>\<open>null\<close> and
  \<^verbatim>\<open>undefined\<close> elements giving the empty string; a plain object gives
  \<^verbatim>\<open>[object Object]\<close>.
\<close>

fun join_with :: "string \<Rightarrow> string list \<Rightarrow> string" where
  "join_with sep [] = []"
| "join_with sep [x] = x"
| "join_with sep (x # y # ys) = x @ sep @ join_with sep (y # ys)"

fun ToString :: "jsv \<Rightarrow> string" where
  "ToString JUndefined = ''undefined''"
| "ToString JNull = ''null''"
| "ToString (JBool b) = (if b then ''true'' else ''false'')"
| "ToString (JNum x) = num_to_string x"
| "ToString (JStr s) = s"
| "ToString (JArr xs) =
     join_with '',''
       (map (\<lambda>x. if x = JUndefined \<or> x = JNull then [] else ToString x) xs)"
| "ToString (JObj kvs) = ''[object Object]''"

subsection \<open>\<^verbatim>\<open>parseInt\<close> and \<^verbatim>\<open>parseFloat\<close>\<close>

text \<open>
  Both builtins convert their argument with \<^verbatim>\<open>String\<close>, skip leading white space and
  read the longest prefix that is a numeral; without one the result is \<^verbatim>\<open>NaN\<close>. Strings
  are byte lists here, so the white space skipped is the ASCII part of JavaScript's
  (tab, line feed, vertical tab, form feed, carriage return, space).
\<close>

definition is_ws :: "char \<Rightarrow> bool" where
  "is_ws c = ((of_char c :: nat) \<in> {9, 10, 11, 12, 13, 32})"

definition is_negative :: "string \<Rightarrow> bool" where
  "is_negative s = (s \<noteq> [] \<and> hd s = CHR ''-'')"

definition drop_sign :: "string \<Rightarrow> string" where
  "drop_sign s = (if s \<noteq> [] \<and> (hd s = CHR ''-'' \<or> hd s = CHR ''+'') then tl s else s)"

definition signed :: "bool \<Rightarrow> nat \<Rightarrow> int" where
  "signed neg n = (if neg then - int n else int n)"

text \<open>\<^verbatim>\<open>parseInt(v, 10)\<close>: the radix is always 10 in this file, so no \<^verbatim>\<open>0x\<close> prefix is read.\<close>

definition parseInt :: "jsv \<Rightarrow> jsnum" where
  "parseInt v =
     (let s = dropWhile is_ws (ToString v);
          z = takeWhile is_digit (drop_sign s)
      in if z = [] then NaN else Dec (signed (is_negative s) (nat_of_digits z)) 0)"

definition exponent_part :: "string \<Rightarrow> int" where
  "exponent_part r =
     (if r \<noteq> [] \<and> (hd r = CHR ''e'' \<or> hd r = CHR ''E'')
      then (let ds = takeWhile is_digit (drop_sign (tl r))
            in if ds = [] then 0 else signed (is_negative (tl r)) (nat_of_digits ds))
      else 0)"

definition parseFloat :: "jsv \<Rightarrow> jsnum" where
  "parseFloat v =
     (let s = dropWhile is_ws (ToString v);
          r = drop_sign s
      in if take 8 r = ''Infinity'' then Infinity (is_negative s)
         else
           let ip = takeWhile is_digit r;
               r1 = dropWhile is_digit r;
               has_dot = (r1 \<noteq> [] \<and> hd r1 = CHR ''.'');
               fp = (if has_dot then takeWhile is_digit (tl r1) else []);
               r2 = (if has_dot then dropWhile is_digit (tl r1) else r1)
           in if ip = [] \<and> fp = [] then NaN
              else Dec (signed (is_negative s) (nat_of_digits (ip @ fp)))
                       (exponent_part r2 - int (length fp)))"

subsection \<open>Strict equality, property access, object spread\<close>

text \<open>
  \<^verbatim>\<open>a === b\<close>. Primitives compare by value, \<^verbatim>\<open>NaN\<close> equals nothing. Objects and arrays
  compare by identity; the operands compared in this file come from different places
  (an option fetched from a table or a service against a field of the record, or a
  handler's argument against a literal), so two of them are never the same object.
\<close>

definition num_eq :: "jsnum \<Rightarrow> jsnum \<Rightarrow> bool" where
  "num_eq x y =
     (case (x, y) of
        (Infinity a, Infinity b) \<Rightarrow> a = b
      | (Dec m e, Dec m' e') \<Rightarrow> strip_zeros m e = strip_zeros m' e'
      | _ \<Rightarrow> False)"

fun strict_eq :: "jsv \<Rightarrow> jsv \<Rightarrow> bool" where
  "strict_eq JUndefined JUndefined = True"
| "strict_eq JNull JNull = True"
| "strict_eq (JBool a) (JBool b) = (a = b)"
| "strict_eq (JNum x) (JNum y) = num_eq x y"
| "strict_eq (JStr s) (JStr t) = (s = t)"
| "strict_eq _ _ = False"

text \<open>
  \<^verbatim>\<open>v[k]\<close> for a \<open>v\<close> that is neither \<^verbatim>\<open>null\<close> nor \<^verbatim>\<open>undefined\<close>: the own properties of
  an object, the elements and the length of an array or a string. What a value
  inherits from its prototype (\<^verbatim>\<open>constructor\<close>, \<^verbatim>\<open>toString\<close>, ...) is a function, has no
  place in \<open>jsv\<close> and reads as \<^verbatim>\<open>undefined\<close> here.
\<close>

definition array_index :: "string \<Rightarrow> nat option" where
  "array_index k =
     (if k \<noteq> [] \<and> list_all is_digit k \<and> (k = ''0'' \<or> hd k \<noteq> CHR ''0'')
      then Some (nat_of_digits k) else None)"

definition get_prop :: "jsv \<Rightarrow> string \<Rightarrow> jsv" where
  "get_prop v k =
     (case v of
        JObj kvs \<Rightarrow> (case map_of kvs k of Some x \<Rightarrow> x | None \<Rightarrow> JUndefined)
      | JArr xs \<Rightarrow>
          (if k = ''length'' then JInt (int (length xs))
           else (case array_index k of
                   Some i \<Rightarrow> (if i < length xs then xs ! i else JUndefined)
                 | None \<Rightarrow> JUndefined))
      | JStr s \<Rightarrow>
          (if k = ''length'' then JInt (int (length s))
           else (case array_index k of
                   Some i \<Rightarrow> (if i < length s then JStr [s ! i] else JUndefined)
                 | None \<Rightarrow> JUndefined))
      | _ \<Rightarrow> JUndefined)"

text \<open>\<^verbatim>\<open>v?.[k]\<close>: \<^verbatim>\<open>undefined\<close> when \<open>v\<close> is \<^verbatim>\<open>null\<close> or \<^verbatim>\<open>undefined\<close>.\<close>

definition opt_get :: "jsv \<Rightarrow> string \<Rightarrow> jsv" where
  "opt_get v k = (if v = JUndefined \<or> v = JNull then JUndefined else get_prop v k)"

text \<open>
  \<^verbatim>\<open>{...v}\<close>: the own enumerable properties of \<open>v\<close>; none for \<^verbatim>\<open>null\<close>, \<^verbatim>\<open>undefined\<close>,
  booleans and numbers, the indexed elements for arrays and strings.
\<close>

definition spread :: "jsv \<Rightarrow> (string \<times> jsv) list" where
  "spread v =
     (case v of
        JObj kvs \<Rightarrow> kvs
      | JArr xs \<Rightarrow> map (\<lambda>i. (digits i, xs ! i)) [0..<length xs]
      | JStr s \<Rightarrow> map (\<lambda>i. (digits i, JStr [s ! i])) [0..<length s]
      | _ \<Rightarrow> [])"

definition is_array :: "jsv \<Rightarrow> bool" where
  "is_array v = (case v of JArr xs \<Rightarrow> True | _ \<Rightarrow> False)"

section \<open>The typed-value codec\<close>

definition xsd_boolean :: string where
  "xsd_boolean = ''http://www.w3.org/2001/XMLSchema#boolean''"

definition xsd_integer :: string where
  "xsd_integer = ''http://www.w3.org/2001/XMLSchema#integer''"

definition xsd_double :: string where
  "xsd_double = ''http://www.w3.org/2001/XMLSchema#double''"

definition xsd_dateTime :: string where
  "xsd_dateTime = ''http://www.w3.org/2001/XMLSchema#dateTime''"

definition tagged :: "string \<Rightarrow> string \<Rightarrow> jsv" where
  "tagged iri s = JObj [(''@type'', JStr iri), (''@value'', JStr s)]"

definition is_true :: "jsv \<Rightarrow> bool" where
  "is_true v = (strict_eq v (JStr ''true'') \<or> strict_eq v (JBool True))"

text \<open>
  \<^verbatim>\<open>createTypedValue(val = '', dataType)\<close>, lines 113-141. The default parameter
  replaces an \<^verbatim>\<open>undefined\<close> argument by the empty string. \<^verbatim>\<open>Date.parse\<close> depends on the
  host (its time zone, and its parser outside the ISO format), so it is the parameter
  \<open>date_parse\<close>.
\<close>

definition createTypedValue :: "(jsv \<Rightarrow> jsnum) \<Rightarrow> jsv \<Rightarrow> string \<Rightarrow> jsv" where
  "createTypedValue date_parse val0 dataType =
     (let val = (if val0 = JUndefined then JStr [] else val0)
      in if dataType = ''url'' then JObj [(''@id'', val)]
         else if dataType = ''boolean'' then tagged xsd_boolean (ToString (JBool (is_true val)))
         else if dataType = ''integer'' then tagged xsd_integer (ToString val)
         else if dataType = ''double'' then tagged xsd_double (ToString val)
         else if dataType = ''datetime'' then tagged xsd_dateTime (num_to_string (date_parse val))
         else val)"

text \<open>\<^verbatim>\<open>extractValue(typedValue, dataType)\<close>, lines 143-156.\<close>

definition extractValue :: "jsv \<Rightarrow> string \<Rightarrow> jsv" where
  "extractValue typedValue dataType =
     (if \<not> truthy typedValue then JStr []
      else if dataType = ''url'' then js_or (get_prop typedValue ''@id'') (JStr [])
      else if dataType = ''boolean'' \<or> dataType = ''integer'' \<or> dataType = ''double''
              \<or> dataType = ''datetime''
        then js_or (get_prop typedValue ''@value'') (JStr [])
      else typedValue)"

section \<open>The state of the component\<close>

text \<open>
  The state of the form that submission depends on, lines 452 and 455, and what the form has done so far. \<^verbatim>\<open>formData\<close> and
  \<^verbatim>\<open>debouncedFormData\<close> hold an object together with a number that stands for its
  identity: React compares a new state with the old one by identity, and every edit
  builds a new object. \<open>timer\<close> is the pending \<^verbatim>\<open>setTimeout\<close> of line 483, as the time
  at which it is due and the \<^verbatim>\<open>formData\<close> its callback closed over; \<open>submitted\<close> lists
  the arguments of the calls of \<^verbatim>\<open>onSubmit\<close>, oldest first; \<open>clock\<close> is the time.
\<close>

record form_state =
  formData :: "nat \<times> jsv"
  debouncedFormData :: "nat \<times> jsv"
  timer :: "(nat \<times> nat \<times> jsv) option"
  submitted :: "jsv list"
  clock :: nat
  mounted :: bool

text \<open>
  The state of one \<^verbatim>\<open>FormField\<close>: the four \<^verbatim>\<open>useState\<close> cells of lines 159-162.
\<close>

record field_state =
  referenceOptions :: "jsv list"
  loading :: bool
  dropdownOpen :: bool
  useDirectInput :: bool

section \<open>Schema resolution\<close>

text \<open>
  A column of a schema document, with the types the schema files give its properties:
  strings, and booleans for \<^verbatim>\<open>array\<close> and \<^verbatim>\<open>codelist\<close> (the code only tests them for
  truth, so an absent one is \<open>False\<close>).
\<close>

record column =
  col_name :: string
  col_description :: string
  col_type :: string
  col_schemaType :: string
  col_array :: bool
  col_valueIRI :: string
  col_codelist :: bool

text \<open>
  The field descriptor \<^verbatim>\<open>generateFormFields\<close> builds (lines 52-62 and the assignments
  of the \<^verbatim>\<open>switch\<close>). \<open>referenceType\<close>, \<open>options\<close> and \<open>fields\<close> are \<open>None\<close> where the
  code leaves the property unset.
\<close>

datatype field = MkField
  (name: string)
  (label: string)
  (type: string)
  (schemaType: string)
  (array: bool)
  (required: bool)
  (description: string)
  (valueIRI: string)
  (codelist: bool)
  (dataType: string)
  (referenceType: "string option")
  (options: "jsv list option")
  (fields: "field list option")

text \<open>What the console receives.\<close>

datatype log_entry =
    EmbeddedSchemaError string
  | OptionsError string

text \<open>
  The object literal of lines 52-62, completed by what the branch taken assigns:
  \<open>ty\<close> for \<^verbatim>\<open>field.type\<close>, \<open>dt\<close> for \<^verbatim>\<open>field.dataType\<close>.
\<close>

definition new_field ::
  "column \<Rightarrow> string \<Rightarrow> string \<Rightarrow> string option \<Rightarrow> jsv list option \<Rightarrow> field list option \<Rightarrow> field"
where
  "new_field c ty dt rt opts subs =
     MkField (col_name c)
           (if col_name c \<noteq> [] then col_name c else col_description c)
           ty
           (col_schemaType c)
           (col_array c)
           False
           (col_description c)
           (col_valueIRI c)
           (col_codelist c)
           dt rt opts subs"

definition basicTypes :: "string list" where
  "basicTypes = [''string'', ''boolean'', ''integer'', ''double'', ''datetime'']"

text \<open>
  \<^verbatim>\<open>toLowerCase\<close> on the ASCII letters. A character outside ASCII never lowers to an
  ASCII letter sequence that spells a basic type, so the test of line 83 is decided
  by the ASCII part.
\<close>

definition lower_char :: "char \<Rightarrow> char" where
  "lower_char c =
     (let n = (of_char c :: nat) in if 65 \<le> n \<and> n \<le> 90 then char_of (n + 32) else c)"

definition toLowerCase :: "string \<Rightarrow> string" where
  "toLowerCase s = map lower_char s"

text \<open>The inner \<^verbatim>\<open>switch\<close> of lines 84-99.\<close>

definition basic_dataType :: "string \<Rightarrow> string" where
  "basic_dataType t =
     (if t = ''boolean'' then ''boolean''
      else if t = ''integer'' then ''integer''
      else if t = ''double'' then ''double''
      else if t = ''datetime'' then ''datetime-local''
      else ''text'')"

text \<open>The \<^verbatim>\<open>default\<close> branch of the outer \<^verbatim>\<open>switch\<close>, lines 81-104.\<close>

definition plain_field :: "column \<Rightarrow> field" where
  "plain_field c =
     (if toLowerCase (col_type c) \<in> set basicTypes
      then new_field c (col_type c) (basic_dataType (toLowerCase (col_type c))) None None None
      else new_field c (col_type c) ''url'' (Some (col_type c)) None None)"

text \<open>The \<^verbatim>\<open>Enum\<close> branch, lines 75-79.\<close>

definition enum_field :: "column \<Rightarrow> field" where
  "enum_field c = new_field c ''select'' ''url'' None (Some []) None"

text \<open>
  The \<^verbatim>\<open>Embedded\<close> branch, lines 65-73: \<open>subs\<close> is \<open>None\<close> when the \<^verbatim>\<open>catch\<close> block ran,
  so that \<^verbatim>\<open>field.fields\<close> was never assigned.
\<close>

definition embedded_field :: "column \<Rightarrow> field list option \<Rightarrow> field" where
  "embedded_field c subs = new_field c (col_type c) ''fieldset'' None None subs"

text \<open>
  The schema store stands for the dynamic \<^verbatim>\<open>import\<close> of
  \<^verbatim>\<open>../assets/logistics-objects/Embedded.<type>.json\<close>: \<open>None\<close> when the import rejects or
  the module holds no column list, which both end in the \<^verbatim>\<open>catch\<close> block of line 70.
\<close>

type_synonym schema_store = "string \<Rightarrow> column list option"

text \<open>
  \<^verbatim>\<open>generateFormFields(columns)\<close>, lines 47-111. The function awaits itself on the
  columns of each embedded schema, and a store whose schemas embed each other makes
  it never return; \<open>fuel\<close> bounds the depth of embedding, and \<open>None\<close> is the call that
  does not return. The result is the field list and the console's lines.
\<close>

fun generateFormFields ::
  "schema_store \<Rightarrow> nat \<Rightarrow> column list \<Rightarrow> (field list \<times> log_entry list) option"
where
  "generateFormFields store fuel [] = Some ([], [])"
| "generateFormFields store fuel (c # cs) =
     (if col_schemaType c = ''Embedded'' then
        (case store (col_type c) of
           None \<Rightarrow>
             (case generateFormFields store fuel cs of
                None \<Rightarrow> None
              | Some (fs, lg) \<Rightarrow>
                  Some (embedded_field c None # fs, EmbeddedSchemaError (col_type c) # lg))
         | Some sub \<Rightarrow>
             (case fuel of
                0 \<Rightarrow> None
              | Suc n \<Rightarrow>
                  (case generateFormFields store n sub of
                     None \<Rightarrow> None
                   | Some (subfs, sublg) \<Rightarrow>
                       (case generateFormFields store (Suc n) cs of
                          None \<Rightarrow> None
                        | Some (fs, lg) \<Rightarrow>
                            Some (embedded_field c (Some subfs) # fs, sublg @ lg)))))
      else
        (case generateFormFields store fuel cs of
           None \<Rightarrow> None
         | Some (fs, lg) \<Rightarrow>
             Some ((if col_schemaType c = ''Enum'' then enum_field c else plain_field c) # fs,
                   lg)))"

text \<open>
  A column whose embedded schema cannot be loaded: the \<^verbatim>\<open>catch\<close> block of line 70 runs
  for it.
\<close>

definition load_fails :: "schema_store \<Rightarrow> column \<Rightarrow> bool" where
  "load_fails store c = (col_schemaType c = ''Embedded'' \<and> store (col_type c) = None)"

section \<open>The form field\<close>

subsection \<open>Array-valued fields (lines 289-336)\<close>

text \<open>Line 291: \<^verbatim>\<open>Array.isArray(value) ? value : value ? [value] : []\<close>.\<close>

definition arrayValue :: "jsv \<Rightarrow> jsv list" where
  "arrayValue v = (case v of JArr xs \<Rightarrow> xs | _ \<Rightarrow> if truthy v then [v] else [])"

text \<open>
  \<^verbatim>\<open>a[i] = x\<close> on a copy of the array: past the end JavaScript extends the array, and
  the holes it leaves read as \<^verbatim>\<open>undefined\<close>.
\<close>

definition set_index :: "jsv list \<Rightarrow> nat \<Rightarrow> jsv \<Rightarrow> jsv list" where
  "set_index xs i x =
     (if i < length xs then xs[i := x]
      else xs @ replicate (i - length xs) JUndefined @ [x])"

text \<open>\<^verbatim>\<open>a.splice(i, 1)\<close> on a copy of the array; nothing is removed past the end.\<close>

definition splice_one :: "jsv list \<Rightarrow> nat \<Rightarrow> jsv list" where
  "splice_one xs i = take i xs @ drop (Suc i) xs"

text \<open>Line 303: the plain value shown for the item at \<open>index\<close>.\<close>

definition array_item_value :: "field \<Rightarrow> jsv \<Rightarrow> nat \<Rightarrow> jsv" where
  "array_item_value f v index = extractValue (arrayValue v ! index) (dataType f)"

text \<open>Lines 304-308: the item's \<^verbatim>\<open>onChange\<close>; the result goes to the field's \<^verbatim>\<open>onChange\<close>.\<close>

definition array_item_onChange :: "(jsv \<Rightarrow> jsnum) \<Rightarrow> field \<Rightarrow> jsv \<Rightarrow> nat \<Rightarrow> jsv \<Rightarrow> jsv" where
  "array_item_onChange date_parse f v index newValue =
     JArr (set_index (arrayValue v) index (createTypedValue date_parse newValue (dataType f)))"

text \<open>Lines 312-316: the remove button of the item at \<open>index\<close>.\<close>

definition array_remove :: "jsv \<Rightarrow> nat \<Rightarrow> jsv" where
  "array_remove v index = JArr (splice_one (arrayValue v) index)"

text \<open>Line 325: the Add Item button.\<close>

definition array_add :: "(jsv \<Rightarrow> jsnum) \<Rightarrow> field \<Rightarrow> jsv \<Rightarrow> jsv" where
  "array_add date_parse f v =
     JArr (arrayValue v @ [createTypedValue date_parse (JStr []) (dataType f)])"

subsection \<open>Embedded fields (lines 338-414)\<close>

text \<open>Lines 349-364: the plain value handed to the child \<open>subField\<close> of a fieldset.\<close>

definition fieldset_child_value :: "field \<Rightarrow> jsv \<Rightarrow> jsv" where
  "fieldset_child_value subField v =
     (let child = opt_get v (name subField);
          dt = dataType subField
      in if dt = ''url'' then js_or (opt_get child ''@id'') (JStr [])
         else if dt = ''boolean'' then JBool (strict_eq (opt_get child ''@value'') (JStr ''true''))
         else if dt = ''integer'' then JNum (parseInt (js_or (opt_get child ''@value'') (JStr ''0'')))
         else if dt = ''double'' then JNum (parseFloat (js_or (opt_get child ''@value'') (JStr ''0'')))
         else if dt = ''datetime'' then js_or (opt_get child ''@value'') (JStr [])
         else child)"

text \<open>Lines 367-400: the \<^verbatim>\<open>switch\<close> that computes \<^verbatim>\<open>processedValue\<close>.\<close>

definition processedValue :: "(jsv \<Rightarrow> jsnum) \<Rightarrow> string \<Rightarrow> jsv \<Rightarrow> jsv" where
  "processedValue date_parse dt newValue =
     (if dt = ''url'' then JObj [(''@id'', newValue)]
      else if dt = ''boolean'' then tagged xsd_boolean (ToString (JBool (is_true newValue)))
      else if dt = ''integer'' then tagged xsd_integer (num_to_string (parseInt newValue))
      else if dt = ''double'' then tagged xsd_double (num_to_string (parseFloat newValue))
      else if dt = ''datetime'' then tagged xsd_dateTime (num_to_string (date_parse newValue))
      else newValue)"

text \<open>
  Lines 366-408: the child's \<^verbatim>\<open>onChange\<close>. The object literal
  \<^verbatim>\<open>{...value, '@type': field.valueIRI, [subField.name]: processedValue}\<close> writes its
  keys from left to right.
\<close>

definition fieldset_onChange :: "(jsv \<Rightarrow> jsnum) \<Rightarrow> field \<Rightarrow> field \<Rightarrow> jsv \<Rightarrow> jsv \<Rightarrow> jsv" where
  "fieldset_onChange date_parse f subField v newValue =
     JObj (AList.update (name subField) (processedValue date_parse (dataType subField) newValue)
            (AList.update ''@type'' (JStr (valueIRI f)) (spread v)))"

subsection \<open>Reference options and the direct-input flag (lines 159-223)\<close>

text \<open>The initial values of the four \<^verbatim>\<open>useState\<close> calls.\<close>

definition initial_field_state :: field_state where
  "initial_field_state =
     \<lparr>referenceOptions = [], loading = False, dropdownOpen = False, useDirectInput = False\<rparr>"

text \<open>
  \<^verbatim>\<open>options.some(option => option['@id'] === value)\<close>, lines 166, 192 and 204. The
  options are the objects built in line 184 or the values that passed the filter of
  line 201, so none of them is \<^verbatim>\<open>null\<close> or \<^verbatim>\<open>undefined\<close> and the property read is safe.
\<close>

definition valueExists :: "jsv list \<Rightarrow> jsv \<Rightarrow> bool" where
  "valueExists opts v = list_ex (\<lambda>option. strict_eq (get_prop option ''@id'') v) opts"

text \<open>
  The effect of lines 164-172, which React runs after a render in which \<^verbatim>\<open>value\<close>,
  \<^verbatim>\<open>referenceOptions\<close> or \<^verbatim>\<open>loading\<close> changed.
\<close>

definition directInputEffect :: "field \<Rightarrow> jsv \<Rightarrow> field_state \<Rightarrow> field_state" where
  "directInputEffect f v st =
     (if dataType f = ''url'' \<and> truthy v then
        (if \<not> valueExists (referenceOptions st) v \<and> \<not> loading st
         then st\<lparr>useDirectInput := True\<rparr> else st)
      else st)"

text \<open>The switch of lines 239-243: the user sets the flag by hand.\<close>

definition toggleDirectInput :: "bool \<Rightarrow> field_state \<Rightarrow> field_state" where
  "toggleDirectInput checked st = st\<lparr>useDirectInput := checked\<rparr>"

fun split_on :: "char \<Rightarrow> string \<Rightarrow> string list" where
  "split_on sep [] = [[]]"
| "split_on sep (c # cs) =
     (if c = sep then [] # split_on sep cs
      else (case split_on sep cs of p # ps \<Rightarrow> (c # p) # ps | [] \<Rightarrow> [[c]]))"

text \<open>
  Line 180: \<^verbatim>\<open>field.valueIRI.split('#')[1]\<close>, \<^verbatim>\<open>undefined\<close> without a \<^verbatim>\<open>#\<close>; as a
  property key \<^verbatim>\<open>undefined\<close> is the string of that name.
\<close>

definition codelistName :: "string \<Rightarrow> string" where
  "codelistName iri =
     (let parts = split_on (CHR ''#'') iri
      in if 1 < length parts then parts ! 1 else ''undefined'')"

definition nullish :: "jsv \<Rightarrow> bool" where
  "nullish v = (v = JUndefined \<or> v = JNull)"

text \<open>
  Lines 184-189, for one entry of the codelist. Reading a property of \<^verbatim>\<open>null\<close> or
  \<^verbatim>\<open>undefined\<close> throws: \<open>None\<close>.
\<close>

definition codelist_option :: "string \<Rightarrow> jsv \<Rightarrow> jsv option" where
  "codelist_option iri item =
     (if nullish item then None
      else Some (JObj [(''@id'', get_prop item ''id''),
                       (''@type'', JStr iri),
                       (''description'', get_prop item ''description''),
                       (''id'', get_prop item ''id'')]))"

text \<open>
  Lines 180-189. \<open>codelists\<close> is the default export of
  \<^verbatim>\<open>../assets/codelists/codelists.json\<close>, \<open>None\<close> when the import rejects. \<open>None\<close> as the
  result is an exception, thrown to the \<^verbatim>\<open>catch\<close> block of line 208: by the import, by
  a property read on \<^verbatim>\<open>null\<close>, or by \<^verbatim>\<open>.map\<close> on a value that is not an array.
\<close>

definition codelist_options :: "jsv option \<Rightarrow> string \<Rightarrow> jsv list option" where
  "codelist_options codelists iri =
     (case codelists of
        None \<Rightarrow> None
      | Some d \<Rightarrow>
          if nullish d then None
          else (case js_or (get_prop d (codelistName iri)) (JArr []) of
                  JArr items \<Rightarrow> those (map (codelist_option iri) items)
                | _ \<Rightarrow> None))"

text \<open>\<^verbatim>\<open>encodeURIComponent\<close>: every byte but the unreserved ones becomes \<^verbatim>\<open>%XX\<close>.\<close>

definition unreserved :: "char \<Rightarrow> bool" where
  "unreserved c =
     (c \<in> set ''ABCDEFGHIJKLMNOPQRSTUVWXYZabcdefghijklmnopqrstuvwxyz0123456789-_.!~*()''
      \<or> (of_char c :: nat) = 39)"

definition hex_digit :: "nat \<Rightarrow> char" where
  "hex_digit n = ''0123456789ABCDEF'' ! (n mod 16)"

definition encodeURIComponent :: "string \<Rightarrow> string" where
  "encodeURIComponent s =
     concat (map (\<lambda>c. if unreserved c then [c]
                       else [CHR ''%'', hex_digit (of_char c div 16), hex_digit (of_char c)]) s)"

text \<open>Line 201: \<^verbatim>\<open>obj && Object.keys(obj).length > 0\<close>.\<close>

definition nonempty_object :: "jsv \<Rightarrow> bool" where
  "nonempty_object obj = (truthy obj \<and> spread obj \<noteq> [])"

text \<open>
  Lines 197-201. \<open>getLogisticsObjects\<close> is the client of \<^verbatim>\<open>../utils/api\<close>, \<open>None\<close> when
  its promise rejects. \<open>None\<close> as the result is an exception: the rejection, a
  response that is \<^verbatim>\<open>null\<close> or \<^verbatim>\<open>undefined\<close>, or a \<^verbatim>\<open>@graph\<close> without \<^verbatim>\<open>.filter\<close>.
\<close>

definition catalog_options :: "(string \<Rightarrow> jsv option) \<Rightarrow> string \<Rightarrow> jsv list option" where
  "catalog_options getLogisticsObjects iri =
     (case getLogisticsObjects (encodeURIComponent iri) of
        None \<Rightarrow> None
      | Some response \<Rightarrow>
          if nullish response then None
          else if truthy (get_prop response ''@graph'')
          then (case get_prop response ''@graph'' of
                  JArr objs \<Rightarrow> Some (filter nonempty_object objs)
                | _ \<Rightarrow> None)
          else Some (filter nonempty_object [response]))"

text \<open>
  \<^verbatim>\<open>loadReferenceOptions\<close>, lines 174-217, from the call to the end of its \<^verbatim>\<open>finally\<close>
  block: the state it leaves and what it logs. In the guard of line 175,
  \<^verbatim>\<open>!field.dataType === 'url'\<close> compares a boolean with a string.
\<close>

definition loadReferenceOptions ::
  "jsv option \<Rightarrow> (string \<Rightarrow> jsv option) \<Rightarrow> field \<Rightarrow> jsv \<Rightarrow> field_state
     \<Rightarrow> field_state \<times> log_entry list"
where
  "loadReferenceOptions codelists getLogisticsObjects f v st =
     (if \<not> dropdownOpen st \<or> strict_eq (JBool (dataType f = [])) (JStr ''url'') then (st, [])
      else
        (case (if codelist f then codelist_options codelists (valueIRI f)
               else catalog_options getLogisticsObjects (valueIRI f)) of
           Some opts \<Rightarrow>
             (st\<lparr>referenceOptions := opts,
                 useDirectInput := (if truthy v \<and> \<not> valueExists opts v then True
                                    else useDirectInput st),
                 loading := False\<rparr>, [])
         | None \<Rightarrow>
             (st\<lparr>referenceOptions := [],
                 useDirectInput := (if truthy v then True else useDirectInput st),
                 loading := False\<rparr>, [OptionsError (name f)])))"

section \<open>The form\<close>

text \<open>Lines 570-590: the plain value handed to a top-level field; \<open>data\<close> is \<^verbatim>\<open>formData\<close>.\<close>

definition form_field_value :: "field \<Rightarrow> jsv \<Rightarrow> jsv" where
  "form_field_value f data =
     (let entry = get_prop data (name f);
          dt = dataType f
      in if array f then entry
         else if dt = ''url'' then js_or (opt_get entry ''@id'') (JStr [])
         else if dt = ''boolean'' then JBool (strict_eq (opt_get entry ''@value'') (JStr ''true''))
         else if dt = ''integer'' then JNum (parseInt (js_or (opt_get entry ''@value'') (JStr ''0'')))
         else if dt = ''double'' then JNum (parseFloat (js_or (opt_get entry ''@value'') (JStr ''0'')))
         else if dt = ''datetime-local'' then js_or (opt_get entry ''@value'') (JStr [])
         else entry)"

text \<open>Lines 504-547: the \<^verbatim>\<open>switch\<close> that computes \<^verbatim>\<open>newValue\<close>.\<close>

definition form_newValue :: "(jsv \<Rightarrow> jsnum) \<Rightarrow> jsv \<Rightarrow> string \<Rightarrow> string \<Rightarrow> jsv" where
  "form_newValue date_parse v fieldDataType fieldType =
     (if fieldDataType = ''url'' then
        (if fieldType \<noteq> ''fieldset'' then JObj [(''@id'', v)] else v)
      else if fieldDataType = ''boolean'' then tagged xsd_boolean (ToString (JBool (is_true v)))
      else if fieldDataType = ''integer'' then tagged xsd_double (num_to_string (parseInt v))
      else if fieldDataType = ''double'' then tagged xsd_double (num_to_string (parseFloat v))
      else if fieldDataType = ''datetime-local''
        then tagged xsd_dateTime (num_to_string (date_parse v))
      else v)"

text \<open>
  \<^verbatim>\<open>handleFieldChange\<close>, lines 494-553, as the function from the form data before the
  edit to the form data after it.
\<close>

definition handleFieldChange ::
  "(jsv \<Rightarrow> jsnum) \<Rightarrow> string \<Rightarrow> jsv \<Rightarrow> string \<Rightarrow> string \<Rightarrow> jsv \<Rightarrow> jsv"
where
  "handleFieldChange date_parse fieldName v fieldDataType fieldType prevData =
     (if is_array v then JObj (AList.update fieldName v (spread prevData))
      else JObj (AList.update fieldName (form_newValue date_parse v fieldDataType fieldType)
                  (spread prevData)))"

subsection \<open>Debounced submission (lines 481-492)\<close>

text \<open>
  The form reacts to three events: an edit, which is a call of \<^verbatim>\<open>handleFieldChange\<close>
  with its four arguments; time that passes; and the unmounting of the component.
  Time is counted in the unit of \<^verbatim>\<open>setTimeout\<close>. A timer runs its callback when it is
  due, an event takes no time, and the \<^verbatim>\<open>onSubmit\<close> the parent passes is the same
  function in every render, so that the effect of line 490 runs when
  \<^verbatim>\<open>debouncedFormData\<close> changes and not otherwise.
\<close>

type_synonym edit = "string \<times> jsv \<times> string \<times> string"

datatype event = Edit edit | Wait nat | Unmount

text \<open>The delay of line 485.\<close>

definition window :: nat where
  "window = 500"

text \<open>
  The first render and its effects: both states hold \<^verbatim>\<open>initialData || {}\<close>, the timer
  is set, and \<^verbatim>\<open>onSubmit\<close> receives the initial data.
\<close>

definition mount :: "jsv \<Rightarrow> form_state" where
  "mount initialData =
     (let d = (0, js_or initialData (JObj []))
      in \<lparr>formData = d, debouncedFormData = d, timer = Some (window, d),
          submitted = [snd d], clock = 0, mounted = True\<rparr>)"

definition apply_edit :: "(jsv \<Rightarrow> jsnum) \<Rightarrow> jsv \<Rightarrow> edit \<Rightarrow> jsv" where
  "apply_edit date_parse prevData e =
     (case e of (fieldName, v, fieldDataType, fieldType) \<Rightarrow>
        handleFieldChange date_parse fieldName v fieldDataType fieldType prevData)"

text \<open>
  An edit: \<^verbatim>\<open>setFormData\<close> stores a new object, and the render that follows runs the
  cleanup of line 486, which clears the pending timer, and sets a new one for the new
  \<^verbatim>\<open>formData\<close>.
\<close>

definition edit_form :: "(jsv \<Rightarrow> jsnum) \<Rightarrow> edit \<Rightarrow> form_state \<Rightarrow> form_state" where
  "edit_form date_parse e s =
     (let d = (Suc (fst (formData s)), apply_edit date_parse (snd (formData s)) e)
      in s\<lparr>formData := d, timer := Some (clock s + window, d)\<rparr>)"

text \<open>
  The callback of line 484 with the \<^verbatim>\<open>formData\<close> it closed over. Setting a state to the
  object it already holds causes no render; otherwise the render runs the effect of
  line 490, which calls \<^verbatim>\<open>onSubmit\<close>.
\<close>

definition fire :: "nat \<times> jsv \<Rightarrow> form_state \<Rightarrow> form_state" where
  "fire d s =
     (if fst d = fst (debouncedFormData s) then s\<lparr>timer := None\<rparr>
      else s\<lparr>timer := None, debouncedFormData := d, submitted := submitted s @ [snd d]\<rparr>)"

text \<open>Time passes; a timer that falls due fires.\<close>

definition wait :: "nat \<Rightarrow> form_state \<Rightarrow> form_state" where
  "wait n s =
     (case timer s of
        None \<Rightarrow> s\<lparr>clock := clock s + n\<rparr>
      | Some t \<Rightarrow>
          if fst t \<le> clock s + n then fire (snd t) (s\<lparr>clock := clock s + n\<rparr>)
          else s\<lparr>clock := clock s + n\<rparr>)"

text \<open>Unmounting runs the cleanup of line 486; nothing runs afterwards.\<close>

definition unmount :: "form_state \<Rightarrow> form_state" where
  "unmount s = s\<lparr>timer := None, mounted := False\<rparr>"

definition step :: "(jsv \<Rightarrow> jsnum) \<Rightarrow> form_state \<Rightarrow> event \<Rightarrow> form_state" where
  "step date_parse s ev =
     (if \<not> mounted s then s
      else (case ev of
              Edit e \<Rightarrow> edit_form date_parse e s
            | Wait n \<Rightarrow> wait n s
            | Unmount \<Rightarrow> unmount s))"

definition run :: "(jsv \<Rightarrow> jsnum) \<Rightarrow> form_state \<Rightarrow> event list \<Rightarrow> form_state" where
  "run date_parse s evs = foldl (step date_parse) s evs"

text \<open>
  A burst: a first edit, and further edits each after a gap. The form data after a
  list of edits.
\<close>

definition burst :: "edit \<Rightarrow> (nat \<times> edit) list \<Rightarrow> event list" where
  "burst e0 rest = Edit e0 # concat (map (\<lambda>(gap, e). [Wait gap, Edit e]) rest)"

definition apply_edits :: "(jsv \<Rightarrow> jsnum) \<Rightarrow> jsv \<Rightarrow> edit list \<Rightarrow> jsv" where
  "apply_edits date_parse d es = foldl (apply_edit date_parse) d es"

text \<open>
  What holds of the timer in every state the form reaches: a pending timer is due
  in the future and closed over the current \<^verbatim>\<open>formData\<close>, which is never older than
  \<^verbatim>\<open>debouncedFormData\<close>.
\<close>

definition timer_inv :: "form_state \<Rightarrow> bool" where
  "timer_inv s =
     (fst (debouncedFormData s) \<le> fst (formData s) \<and>
      (case timer s of None \<Rightarrow> True | Some t \<Rightarrow> snd t = formData s \<and> clock s < fst t))"

section \<open>Example inputs\<close>

text \<open>A store without any embedded schema, and a column that refers to another object.\<close>

definition no_schemas :: schema_store where
  "no_schemas t = None"

definition consignment_column :: column where
  "consignment_column =
     \<lparr>col_name = ''consignment'', col_description = ''of the piece'',
      col_type = ''Consignment'', col_schemaType = ''Plain'', col_array = False,
      col_valueIRI = ''https://onerecord.iata.org/ns/cargo#Consignment'',
      col_codelist = False\<rparr>"

text \<open>A column with an embedded schema.\<close>

definition dimensions_column :: column where
  "dimensions_column =
     \<lparr>col_name = ''dimensions'', col_description = ''of the piece'',
      col_type = ''Dimensions'', col_schemaType = ''Embedded'', col_array = False,
      col_valueIRI = ''https://onerecord.iata.org/ns/cargo#Dimensions'',
      col_codelist = False\<rparr>"

text \<open>A host whose \<^verbatim>\<open>Date.parse\<close> reads no string as a date.\<close>

definition unparsed_date :: "jsv \<Rightarrow> jsnum" where
  "unparsed_date v = NaN"

text \<open>
  An embedded field with two integer children and a value for it, the
  \<^verbatim>\<open>{"@type": T, x: 1, y: 2}\<close> of the specification in its typed form.
\<close>

definition x_column :: column where
  "x_column =
     \<lparr>col_name = ''x'', col_description = ''first measure'',
      col_type = ''integer'', col_schemaType = ''Plain'', col_array = False,
      col_valueIRI = ''https://onerecord.iata.org/ns/cargo#x'', col_codelist = False\<rparr>"

definition y_column :: column where
  "y_column =
     \<lparr>col_name = ''y'', col_description = ''second measure'',
      col_type = ''integer'', col_schemaType = ''Plain'', col_array = False,
      col_valueIRI = ''https://onerecord.iata.org/ns/cargo#y'', col_codelist = False\<rparr>"

definition dimensions_field :: field where
  "dimensions_field =
     embedded_field dimensions_column (Some [plain_field x_column, plain_field y_column])"

definition dimensions_value :: jsv where
  "dimensions_value =
     JObj [(''@type'', JStr ''Dimensions''),
           (''x'', tagged xsd_integer ''1''),
           (''y'', tagged xsd_integer ''2'')]"

text \<open>An array-valued reference column.\<close>

definition pieces_column :: column where
  "pieces_column =
     \<lparr>col_name = ''pieces'', col_description = ''of the shipment'',
      col_type = ''Piece'', col_schemaType = ''Plain'', col_array = True,
      col_valueIRI = ''https://onerecord.iata.org/ns/cargo#Piece'', col_codelist = False\<rparr>"

text \<open>
  Two codelist columns, a codelist table that knows the first but not the second, a
  catalog service that rejects every request, and a field whose dropdown has just
  been opened.
\<close>

definition unit_column :: column where
  "unit_column =
     \<lparr>col_name = ''unit'', col_description = ''of measure'',
      col_type = ''UnitType'', col_schemaType = ''Enum'', col_array = False,
      col_valueIRI = ''http://example.org/codes#UnitType'', col_codelist = True\<rparr>"

definition unit_types :: "jsv list" where
  "unit_types =
     [JObj [(''id'', JStr ''KGM''), (''description'', JStr ''kilogram'')],
      JObj [(''id'', JStr ''MTR''), (''description'', JStr ''metre'')]]"

definition example_codelists :: "(string \<times> jsv) list" where
  "example_codelists =
     [(''UnitType'', JArr unit_types),
      (''Currency'', JArr [JObj [(''id'', JStr ''EUR''), (''description'', JStr ''euro'')]])]"


definition no_catalog :: "string \<Rightarrow> jsv option" where
  "no_catalog t = None"

definition opened :: field_state where
  "opened = initial_field_state\<lparr>dropdownOpen := True\<rparr>"

text \<open>Four further keystrokes in a text field, 20 time units apart.\<close>

definition note_edits :: "(nat \<times> edit) list" where
  "note_edits =
     [(20, (''note'', JStr ''ab'', ''text'', ''string'')),
      (20, (''note'', JStr ''abc'', ''text'', ''string'')),
      (20, (''note'', JStr ''abcd'', ''text'', ''string'')),
      (20, (''note'', JStr ''abcde'', ''text'', ''string''))]"

section \<open>Properties of schema resolution\<close>

lemma generateFormFields_length:
  "generateFormFields store fuel cs = Some (fs, lg) \<Longrightarrow> length fs = length cs"
  by (induction cs arbitrary: fs lg)
     (auto split: if_splits option.splits nat.splits prod.splits)

lemma generateFormFields_nth_plain:
  "generateFormFields store fuel cs = Some (fs, lg) \<Longrightarrow> i < length cs \<Longrightarrow>
   col_schemaType (cs ! i) \<noteq> ''Embedded'' \<Longrightarrow>
   fs ! i = (if col_schemaType (cs ! i) = ''Enum'' then enum_field (cs ! i) else plain_field (cs ! i))"
proof (induction cs arbitrary: fs lg i)
  case Nil
  then show ?case by simp
next
  case (Cons c cs)
  show ?case
  proof (cases i)
    case 0
    with Cons.prems show ?thesis
      by (auto split: if_splits option.splits nat.splits prod.splits)
  next
    case (Suc j)
    with Cons.prems Cons.IH [of _ _ j] show ?thesis
      by (auto split: if_splits option.splits nat.splits prod.splits)
  qed
qed

lemma new_field_sel [simp]:
  "name (new_field c ty dt rt opts subs) = col_name c"
  "type (new_field c ty dt rt opts subs) = ty"
  "array (new_field c ty dt rt opts subs) = col_array c"
  "valueIRI (new_field c ty dt rt opts subs) = col_valueIRI c"
  "codelist (new_field c ty dt rt opts subs) = col_codelist c"
  "dataType (new_field c ty dt rt opts subs) = dt"
  "referenceType (new_field c ty dt rt opts subs) = rt"
  "options (new_field c ty dt rt opts subs) = opts"
  "fields (new_field c ty dt rt opts subs) = subs"
  by (simp_all add: new_field_def)



lemma generateFormFields_names:
  "generateFormFields store fuel cs = Some (fs, lg) \<Longrightarrow> map name fs = map col_name cs"
  by (induction cs arbitrary: fs lg)
     (auto simp: embedded_field_def enum_field_def plain_field_def
           split: if_splits option.splits nat.splits prod.splits)

lemma generateFormFields_nth_failed:
  "generateFormFields store fuel cs = Some (fs, lg) \<Longrightarrow> i < length cs \<Longrightarrow>
   col_schemaType (cs ! i) = ''Embedded'' \<Longrightarrow> store (col_type (cs ! i)) = None \<Longrightarrow>
   fs ! i = embedded_field (cs ! i) None \<and> EmbeddedSchemaError (col_type (cs ! i)) \<in> set lg"
proof (induction cs arbitrary: fs lg i)
  case Nil
  then show ?case by simp
next
  case (Cons c cs)
  show ?case
  proof (cases i)
    case 0
    with Cons.prems show ?thesis
      by (auto split: if_splits option.splits nat.splits prod.splits)
  next
    case (Suc j)
    with Cons.prems Cons.IH [of _ _ j] show ?thesis
      by (auto split: if_splits option.splits nat.splits prod.splits)
  qed
qed

lemma generateFormFields_nth_embedded:
  "generateFormFields store fuel cs = Some (fs, lg) \<Longrightarrow> i < length cs \<Longrightarrow>
   col_schemaType (cs ! i) = ''Embedded'' \<Longrightarrow> store (col_type (cs ! i)) = Some sub \<Longrightarrow>
   \<exists>n subfs sublg. fuel = Suc n \<and> generateFormFields store n sub = Some (subfs, sublg) \<and>
     fs ! i = embedded_field (cs ! i) (Some subfs)"
proof (induction cs arbitrary: fs lg i)
  case Nil
  then show ?case by simp
next
  case (Cons c cs)
  show ?case
  proof (cases i)
    case 0
    with Cons.prems show ?thesis
      by (auto split: if_splits option.splits nat.splits prod.splits)
  next
    case (Suc j)
    with Cons.prems Cons.IH [of _ _ j] show ?thesis
      by (auto split: if_splits option.splits nat.splits prod.splits)
  qed
qed

lemma generateFormFields_skip_failing:
  "(generateFormFields store fuel cs = None) =
   (generateFormFields store fuel (filter (\<lambda>c. \<not> load_fails store c) cs) = None)"
  by (induction cs)
     (auto simp: load_fails_def split: option.splits nat.splits prod.splits)

text \<open>
  The fuel only bounds the depth of embedding: a result obtained with some fuel is
  the result with any more.
\<close>

lemma generateFormFields_plain_Cons:
  "col_schemaType c \<noteq> ''Embedded'' \<Longrightarrow>
   generateFormFields store fuel (c # cs)
     = map_option (\<lambda>(fs, lg). ((if col_schemaType c = ''Enum'' then enum_field c
                                     else plain_field c) # fs, lg))
         (generateFormFields store fuel cs)"
  by (simp split: option.splits)

lemma generateFormFields_failed_Cons:
  "col_schemaType c = ''Embedded'' \<Longrightarrow> store (col_type c) = None \<Longrightarrow>
   generateFormFields store fuel (c # cs)
     = map_option (\<lambda>(fs, lg). (embedded_field c None # fs, EmbeddedSchemaError (col_type c) # lg))
         (generateFormFields store fuel cs)"
  by (simp split: option.splits)

lemma generateFormFields_loaded_Cons:
  "col_schemaType c = ''Embedded'' \<Longrightarrow> store (col_type c) = Some sub \<Longrightarrow>
   generateFormFields store (Suc n) (c # cs)
     = (case generateFormFields store n sub of
          None \<Rightarrow> None
        | Some (subfs, sublg) \<Rightarrow>
            map_option (\<lambda>(fs, lg). (embedded_field c (Some subfs) # fs, sublg @ lg))
              (generateFormFields store (Suc n) cs))"
  by (simp split: option.splits)

lemma generateFormFields_no_fuel:
  "col_schemaType c = ''Embedded'' \<Longrightarrow> store (col_type c) = Some sub \<Longrightarrow>
   generateFormFields store 0 (c # cs) = None"
  by simp

lemma generateFormFields_more_fuel:
  "generateFormFields store fuel cs = Some r \<Longrightarrow> fuel \<le> fuel' \<Longrightarrow>
   generateFormFields store fuel' cs = Some r"
proof (induction store fuel cs arbitrary: r fuel' rule: generateFormFields.induct)
  case (1 store fuel)
  then show ?case by simp
next
  case (2 store fuel c cs)
  show ?case
  proof (cases "col_schemaType c = ''Embedded''")
    case False
    from "2.prems"(1) obtain r' where r': "generateFormFields store fuel cs = Some r'"
      unfolding generateFormFields_plain_Cons [OF False] by blast
    have "generateFormFields store fuel' cs = Some r'"
      using "2.IH"(4) [OF False r' "2.prems"(2)] .
    with "2.prems"(1) r' show ?thesis
      unfolding generateFormFields_plain_Cons [OF False] by simp
  next
    case True
    show ?thesis
    proof (cases "store (col_type c)")
      case None
      from "2.prems"(1) obtain r' where r': "generateFormFields store fuel cs = Some r'"
        unfolding generateFormFields_failed_Cons [of c store, OF True None] by blast
      have "generateFormFields store fuel' cs = Some r'"
        using "2.IH"(1) [OF True None r' "2.prems"(2)] .
      with "2.prems"(1) r' show ?thesis
        unfolding generateFormFields_failed_Cons [of c store, OF True None] by simp
    next
      case (Some sub)
      have "fuel \<noteq> 0"
        using "2.prems"(1) generateFormFields_no_fuel [of c store, OF True Some] by (cases fuel) simp_all
      then obtain n where n: "fuel = Suc n"
        by (cases fuel) simp_all
      with "2.prems"(2) obtain n' where n': "fuel' = Suc n'" and le: "n \<le> n'"
        by (cases fuel') simp_all
      from "2.prems"(1) obtain subr where
        sub: "generateFormFields store n sub = Some subr"
        unfolding n generateFormFields_loaded_Cons [of c store, OF True Some]
        by (cases "generateFormFields store n sub") simp_all
      obtain subfs sublg where subr: "subr = (subfs, sublg)"
        by (cases subr)
      from "2.prems"(1) obtain r' where
        tl: "generateFormFields store (Suc n) cs = Some r'"
        unfolding n generateFormFields_loaded_Cons [of c store, OF True Some] sub subr
        by auto
      have sub': "generateFormFields store n' sub = Some subr"
        using "2.IH"(2) [OF True Some n sub le] .
      have "Suc n \<le> Suc n'"
        using le by simp
      then have tl': "generateFormFields store (Suc n') cs = Some r'"
        using "2.IH"(3) [OF True Some n sub subr [symmetric] tl] by blast
      from "2.prems"(1) show ?thesis
        unfolding n n' generateFormFields_loaded_Cons [of c store, OF True Some] sub sub' tl tl' .
    qed
  qed
qed

section \<open>Properties of the form field\<close>

lemma get_prop_update:
  "get_prop (JObj (AList.update k x kvs)) k' = (if k' = k then x else get_prop (JObj kvs) k')"
  by (simp add: get_prop_def update_conv')

lemma keys_update: "fst ` set (AList.update k x kvs) = insert k (fst ` set kvs)"
  using dom_update [of k x kvs] by (simp add: dom_map_of_conv_image_fst)

lemma arrayValue_cases:
  "arrayValue (JArr xs) = xs"
  "\<not> is_array v \<Longrightarrow> truthy v \<Longrightarrow> arrayValue v = [v]"
  "\<not> truthy v \<Longrightarrow> arrayValue v = []"
  by (auto simp: arrayValue_def is_array_def split: jsv.splits)

lemma splice_one_nth:
  assumes "i < length xs"
  shows "Suc (length (splice_one xs i)) = length xs"
    and "j < i \<Longrightarrow> splice_one xs i ! j = xs ! j"
    and "i \<le> j \<Longrightarrow> j < length (splice_one xs i) \<Longrightarrow> splice_one xs i ! j = xs ! Suc j"
  using assms by (auto simp: splice_one_def nth_append min_def)

section \<open>Properties of the reference options\<close>







lemma loadReferenceOptions_cases:
  assumes "dropdownOpen st"
  obtains (loaded) opts where
      "fst (loadReferenceOptions c g f v st)
         = st\<lparr>referenceOptions := opts,
               useDirectInput := (if truthy v \<and> \<not> valueExists opts v then True
                                  else useDirectInput st),
               loading := False\<rparr>"
    | (failed)
      "fst (loadReferenceOptions c g f v st)
         = st\<lparr>referenceOptions := [],
               useDirectInput := (if truthy v then True else useDirectInput st),
               loading := False\<rparr>"
proof (cases "if codelist f then codelist_options c (valueIRI f)
              else catalog_options g (valueIRI f)")
  case None
  with assms have "fst (loadReferenceOptions c g f v st)
         = st\<lparr>referenceOptions := [],
               useDirectInput := (if truthy v then True else useDirectInput st),
               loading := False\<rparr>"
    unfolding loadReferenceOptions_def by simp
  then show ?thesis by (rule failed)
next
  case (Some opts)
  with assms have "fst (loadReferenceOptions c g f v st)
         = st\<lparr>referenceOptions := opts,
               useDirectInput := (if truthy v \<and> \<not> valueExists opts v then True
                                  else useDirectInput st),
               loading := False\<rparr>"
    unfolding loadReferenceOptions_def by simp
  then show ?thesis by (rule loaded)
qed

lemma loadReferenceOptions_flag:
  assumes "dropdownOpen st"
  shows "loading (fst (loadReferenceOptions c g f v st)) = False"
    and "truthy v \<Longrightarrow> \<not> valueExists (referenceOptions (fst (loadReferenceOptions c g f v st))) v
           \<Longrightarrow> useDirectInput (fst (loadReferenceOptions c g f v st))"
    and "\<not> truthy v \<or> valueExists (referenceOptions (fst (loadReferenceOptions c g f v st))) v
           \<Longrightarrow> useDirectInput (fst (loadReferenceOptions c g f v st)) = useDirectInput st"
  by (rule loadReferenceOptions_cases [OF assms, of c g f v]; auto simp: valueExists_def)+

lemma directInputEffect_frame:
  "referenceOptions (directInputEffect f v st) = referenceOptions st"
  "loading (directInputEffect f v st) = loading st"
  "dropdownOpen (directInputEffect f v st) = dropdownOpen st"
  by (simp_all add: directInputEffect_def)

section \<open>Properties of the typed-value codec\<close>

lemma tagged_truthy [simp]: "truthy (tagged iri s)"
  by (simp add: tagged_def)

lemma get_prop_tagged [simp]:
  "get_prop (tagged iri s) ''@value'' = JStr s"
  "get_prop (tagged iri s) ''@type'' = JStr iri"
  by (simp_all add: tagged_def get_prop_def)

lemma js_or_JStr [simp]: "js_or (JStr s) (JStr []) = JStr s"
  by (simp add: js_or_def)

lemma round_trip_url:
  "extractValue (createTypedValue date_parse v ''url'') ''url''
     = js_or (if v = JUndefined then JStr [] else v) (JStr [])"
  by (simp add: createTypedValue_def extractValue_def get_prop_def)

lemma round_trip_boolean:
  "extractValue (createTypedValue date_parse v ''boolean'') ''boolean''
     = JStr (if is_true v then ''true'' else ''false'')"
  by (simp add: createTypedValue_def extractValue_def is_true_def)

lemma round_trip_number:
  "dt = ''integer'' \<or> dt = ''double'' \<Longrightarrow>
   extractValue (createTypedValue date_parse v dt) dt
     = JStr (ToString (if v = JUndefined then JStr [] else v))"
  by (auto simp: createTypedValue_def extractValue_def)

lemma round_trip_datetime:
  "extractValue (createTypedValue date_parse v ''datetime'') ''datetime''
     = JStr (num_to_string (date_parse (if v = JUndefined then JStr [] else v)))"
  by (simp add: createTypedValue_def extractValue_def)

lemma round_trip_other:
  "dt \<notin> {''url'', ''boolean'', ''integer'', ''double'', ''datetime''} \<Longrightarrow>
   extractValue (createTypedValue date_parse v dt) dt
     = js_or (if v = JUndefined then JStr [] else v) (JStr [])"
  by (simp add: createTypedValue_def extractValue_def js_or_def)

lemma js_or_idem:
  "js_or (if js_or w (JStr []) = JUndefined then JStr [] else js_or w (JStr [])) (JStr [])
     = js_or w (JStr [])"
  by (cases "truthy w") (auto simp: js_or_def)

lemma round_trip_idempotent:
  assumes "dt \<noteq> ''datetime''"
  shows "extractValue (createTypedValue date_parse
            (extractValue (createTypedValue date_parse v dt) dt) dt) dt
         = extractValue (createTypedValue date_parse v dt) dt"
proof -
  consider "dt = ''url''" | "dt = ''boolean''" | "dt = ''integer'' \<or> dt = ''double''"
    | "dt \<notin> {''url'', ''boolean'', ''integer'', ''double'', ''datetime''}"
    using assms by auto
  then show ?thesis
  proof cases
    case 1
    then show ?thesis by (simp add: round_trip_url js_or_idem)
  next
    case 2
    then show ?thesis by (simp add: round_trip_boolean is_true_def)
  next
    case 3
    then show ?thesis by (simp add: round_trip_number)
  next
    case 4
    then show ?thesis by (simp add: round_trip_other js_or_idem)
  qed
qed

lemma num_to_string_42: "num_to_string (Dec 42 0) = ''42''"
  by code_simp

lemma parse_zero: "parseInt (JStr ''0'') = Dec 0 0" "parseFloat (JStr ''0'') = Dec 0 0"
  by code_simp+

lemma extractValue_absent: "\<not> truthy t \<Longrightarrow> extractValue t dt = JStr []"
  by (simp add: extractValue_def)

lemma extractValue_url:
  "truthy t \<Longrightarrow> extractValue t ''url'' = js_or (get_prop t ''@id'') (JStr [])"
  by (simp add: extractValue_def)

lemma extractValue_tagged:
  "truthy t \<Longrightarrow> dt \<in> {''boolean'', ''integer'', ''double'', ''datetime''} \<Longrightarrow>
   extractValue t dt = js_or (get_prop t ''@value'') (JStr [])"
  by (auto simp: extractValue_def)

lemma form_field_value_cases:
  assumes "\<not> array f"
  shows "dataType f = ''url'' \<Longrightarrow>
      form_field_value f data
        = js_or (opt_get (get_prop data (name f)) ''@id'') (JStr [])"
    and "dataType f = ''boolean'' \<Longrightarrow>
      form_field_value f data
        = JBool (opt_get (get_prop data (name f)) ''@value'' = JStr ''true'')"
    and "dataType f = ''integer'' \<Longrightarrow>
      form_field_value f data
        = JNum (parseInt (js_or (opt_get (get_prop data (name f)) ''@value'') (JStr ''0'')))"
    and "dataType f = ''double'' \<Longrightarrow>
      form_field_value f data
        = JNum (parseFloat (js_or (opt_get (get_prop data (name f)) ''@value'') (JStr ''0'')))"
    and "dataType f = ''datetime-local'' \<Longrightarrow>
      form_field_value f data
        = js_or (opt_get (get_prop data (name f)) ''@value'') (JStr [])"
proof -
  have eq: "strict_eq x (JStr ''true'') = (x = JStr ''true'')" for x
    by (cases x) simp_all
  show "dataType f = ''url'' \<Longrightarrow>
      form_field_value f data
        = js_or (opt_get (get_prop data (name f)) ''@id'') (JStr [])"
    using assms by (simp add: form_field_value_def)
  show "dataType f = ''boolean'' \<Longrightarrow>
      form_field_value f data
        = JBool (opt_get (get_prop data (name f)) ''@value'' = JStr ''true'')"
    using assms by (simp add: form_field_value_def eq)
  show "dataType f = ''integer'' \<Longrightarrow>
      form_field_value f data
        = JNum (parseInt (js_or (opt_get (get_prop data (name f)) ''@value'') (JStr ''0'')))"
    using assms by (simp add: form_field_value_def)
  show "dataType f = ''double'' \<Longrightarrow>
      form_field_value f data
        = JNum (parseFloat (js_or (opt_get (get_prop data (name f)) ''@value'') (JStr ''0'')))"
    using assms by (simp add: form_field_value_def)
  show "dataType f = ''datetime-local'' \<Longrightarrow>
      form_field_value f data
        = js_or (opt_get (get_prop data (name f)) ''@value'') (JStr [])"
    using assms by (simp add: form_field_value_def)
qed

lemma xsd_double_not_integer: "xsd_double \<noteq> xsd_integer"
  by (simp add: xsd_double_def xsd_integer_def)

lemma tagged_inject [simp]: "(tagged iri s = tagged iri' s') = (iri = iri' \<and> s = s')"
  by (auto simp: tagged_def)

section \<open>Properties of the debounced submission\<close>

lemma timer_inv_mount: "timer_inv (mount initialData)"
  by (simp add: timer_inv_def mount_def window_def Let_def)

lemma timer_inv_edit: "timer_inv s \<Longrightarrow> timer_inv (edit_form date_parse e s)"
  by (simp add: timer_inv_def edit_form_def window_def Let_def)

lemma timer_inv_wait: "timer_inv s \<Longrightarrow> timer_inv (wait n s)"
  by (cases "timer s") (simp_all add: timer_inv_def wait_def fire_def)

lemma timer_inv_unmount: "timer_inv s \<Longrightarrow> timer_inv (unmount s)"
  by (simp add: timer_inv_def unmount_def)

lemma timer_inv_step: "timer_inv s \<Longrightarrow> timer_inv (step date_parse s ev)"
  by (cases ev) (simp_all add: step_def timer_inv_edit timer_inv_wait timer_inv_unmount)

lemma timer_inv_run: "timer_inv s \<Longrightarrow> timer_inv (run date_parse s evs)"
  unfolding run_def by (induction evs arbitrary: s) (simp_all add: timer_inv_step)

lemma run_append: "run date_parse s (xs @ ys) = run date_parse (run date_parse s xs) ys"
  by (simp add: run_def)

lemma run_Nil [simp]: "run date_parse s [] = s"
  by (simp add: run_def)

lemma run_Cons [simp]: "run date_parse s (ev # evs) = run date_parse (step date_parse s ev) evs"
  by (simp add: run_def)

lemma step_mounted:
  "mounted s \<Longrightarrow> step date_parse s (Edit e) = edit_form date_parse e s"
  "mounted s \<Longrightarrow> step date_parse s (Wait n) = wait n s"
  "mounted s \<Longrightarrow> step date_parse s Unmount = unmount s"
  by (simp_all add: step_def)

lemma run_unmounted: "\<not> mounted s \<Longrightarrow> run date_parse s evs = s"
  unfolding run_def by (induction evs) (simp_all add: step_def)

lemma burst_snoc:
  "burst e0 (rest @ [(gap, e)]) = burst e0 rest @ [Wait gap, Edit e]"
  by (simp add: burst_def)

lemma run_burst:
  assumes "timer_inv s" and "mounted s" and "list_all (\<lambda>(gap, e). gap < window) rest"
  shows "mounted (run date_parse s (burst e0 rest)) \<and>
     submitted (run date_parse s (burst e0 rest)) = submitted s \<and>
     debouncedFormData (run date_parse s (burst e0 rest)) = debouncedFormData s \<and>
     snd (formData (run date_parse s (burst e0 rest)))
       = apply_edits date_parse (snd (formData s)) (e0 # map snd rest) \<and>
     fst (debouncedFormData s) < fst (formData (run date_parse s (burst e0 rest))) \<and>
     timer (run date_parse s (burst e0 rest))
       = Some (clock (run date_parse s (burst e0 rest)) + window,
               formData (run date_parse s (burst e0 rest)))"
  using assms(3)
proof (induction rest rule: rev_induct)
  case Nil
  with assms(1,2) show ?case
    by (simp add: burst_def run_def step_def edit_form_def apply_edits_def timer_inv_def Let_def)
next
  case (snoc x rest)
  obtain gap e where x: "x = (gap, e)" by (cases x)
  from snoc.prems x have gap: "gap < window" and rest: "list_all (\<lambda>(gap, e). gap < window) rest"
    by simp_all
  let ?s = "run date_parse s (burst e0 rest)"
  note ih = snoc.IH [OF rest]
  have w: "wait gap ?s = ?s\<lparr>clock := clock ?s + gap\<rparr>"
    using ih gap by (simp add: wait_def)
  have r: "run date_parse s (burst e0 (rest @ [x]))
      = edit_form date_parse e (?s\<lparr>clock := clock ?s + gap\<rparr>)"
    using ih w by (simp add: x burst_snoc run_append run_def step_def)
  show ?case
    using ih unfolding r
    by (simp add: edit_form_def apply_edits_def Let_def x)
qed

lemma wait_fires:
  assumes "timer s = Some (clock s + window, formData s)"
    and "fst (debouncedFormData s) < fst (formData s)" and "window \<le> quiet"
  shows "submitted (wait quiet s) = submitted s @ [snd (formData s)]"
  using assms by (simp add: wait_def fire_def)

lemma wait_pending:
  assumes "timer s = Some (clock s + window, formData s)" and "gap < window"
  shows "submitted (wait gap s) = submitted s" and "mounted (wait gap s) = mounted s"
  using assms by (simp_all add: wait_def)

section \<open>The claims of the specification\<close>

text \<open>
  Claim C1. The \<^verbatim>\<open>onChange\<close> of a child of a fieldset hands on an object in which the
  child's key holds the value just encoded, every other key but \<^verbatim>\<open>@type\<close> holds what
  the previous embedded value held (for an object, \<open>spread v\<close> is its property list),
  and \<^verbatim>\<open>@type\<close> is the \<^verbatim>\<open>valueIRI\<close> of the fieldset, provided the child is not itself named
  \<^verbatim>\<open>@type\<close>. The keys of the result are the previous keys, \<^verbatim>\<open>@type\<close> and the child's:
  nothing is dropped.
\<close>

theorem fieldset_onChange_merges:
  "get_prop (fieldset_onChange date_parse f subField v newValue) (name subField)
     = processedValue date_parse (dataType subField) newValue \<and>
   (\<forall>k. k \<noteq> name subField \<and> k \<noteq> ''@type'' \<longrightarrow>
      get_prop (fieldset_onChange date_parse f subField v newValue) k
        = get_prop (JObj (spread v)) k) \<and>
   (name subField \<noteq> ''@type'' \<longrightarrow>
      get_prop (fieldset_onChange date_parse f subField v newValue) ''@type''
        = JStr (valueIRI f)) \<and>
   fst ` set (spread (fieldset_onChange date_parse f subField v newValue))
     = insert (name subField) (insert ''@type'' (fst ` set (spread v)))"
  by (simp add: fieldset_onChange_def get_prop_update keys_update spread_def)

text \<open>Editing \<^verbatim>\<open>x\<close> in \<^verbatim>\<open>{"@type": T, x: 1, y: 2}\<close> leaves \<^verbatim>\<open>y\<close> as it was.\<close>

theorem fieldset_onChange_merges_witness:
  "fieldset_onChange unparsed_date dimensions_field (plain_field x_column) dimensions_value
     (JStr ''5'')
     = JObj [(''@type'', JStr ''https://onerecord.iata.org/ns/cargo#Dimensions''),
             (''x'', tagged xsd_integer ''5''),
             (''y'', tagged xsd_integer ''2'')] \<and>
   get_prop (fieldset_onChange unparsed_date dimensions_field (plain_field x_column)
               dimensions_value (JStr ''5'')) ''y''
     = get_prop dimensions_value ''y''"
proof -
  have n: "name (plain_field x_column) = ''x''"
    by (simp add: plain_field_def x_column_def)
  have s: "spread dimensions_value
             = [(''@type'', JStr ''Dimensions''), (''x'', tagged xsd_integer ''1''),
                (''y'', tagged xsd_integer ''2'')]"
    by (simp add: spread_def dimensions_value_def)
  have e: "fieldset_onChange unparsed_date dimensions_field (plain_field x_column)
             dimensions_value (JStr ''5'')
     = JObj [(''@type'', JStr ''https://onerecord.iata.org/ns/cargo#Dimensions''),
             (''x'', tagged xsd_integer ''5''),
             (''y'', tagged xsd_integer ''2'')]"
    by code_simp
  from fieldset_onChange_merges
         [of unparsed_date dimensions_field "plain_field x_column" dimensions_value "JStr ''5''"]
  have "get_prop (fieldset_onChange unparsed_date dimensions_field (plain_field x_column)
               dimensions_value (JStr ''5'')) ''y''
     = get_prop (JObj (spread dimensions_value)) ''y''"
    using n by simp
  with e s show ?thesis
    by (simp add: dimensions_value_def)
qed

text \<open>
  Claim C2, as the code has it. Through \<^verbatim>\<open>createTypedValue\<close> and then \<^verbatim>\<open>extractValue\<close>,
  the boolean kind takes \<^verbatim>\<open>"true"\<close> to the string \<^verbatim>\<open>"true"\<close>, and the integer kind takes
  the number 42 to the string \<^verbatim>\<open>"42"\<close>. For every kind but \<^verbatim>\<open>datetime\<close>, encoding and
  decoding a value that came out of a decoding gives that value again; in particular
  every string is kept by the kinds \<^verbatim>\<open>url\<close>, \<^verbatim>\<open>integer\<close> and \<^verbatim>\<open>double\<close>, and \<^verbatim>\<open>"true"\<close> and
  \<^verbatim>\<open>"false"\<close> by \<^verbatim>\<open>boolean\<close>. The kind \<^verbatim>\<open>datetime\<close> gives the string of what \<^verbatim>\<open>Date.parse\<close>
  returns, epoch milliseconds or \<^verbatim>\<open>NaN\<close>.
\<close>

theorem codec_round_trip:
  "extractValue (createTypedValue date_parse (JStr ''true'') ''boolean'') ''boolean''
     = JStr ''true'' \<and>
   extractValue (createTypedValue date_parse (JInt 42) ''integer'') ''integer''
     = JStr ''42'' \<and>
   (dt \<noteq> ''datetime'' \<longrightarrow>
      extractValue (createTypedValue date_parse
          (extractValue (createTypedValue date_parse v dt) dt) dt) dt
        = extractValue (createTypedValue date_parse v dt) dt) \<and>
   (dt \<in> {''url'', ''integer'', ''double''} \<longrightarrow>
      extractValue (createTypedValue date_parse (JStr s) dt) dt = JStr s) \<and>
   (s \<in> {''true'', ''false''} \<longrightarrow>
      extractValue (createTypedValue date_parse (JStr s) ''boolean'') ''boolean'' = JStr s) \<and>
   extractValue (createTypedValue date_parse (JStr s) ''datetime'') ''datetime''
     = JStr (num_to_string (date_parse (JStr s)))"
proof (intro conjI impI)
  show "extractValue (createTypedValue date_parse (JStr ''true'') ''boolean'') ''boolean''
     = JStr ''true''"
    by (simp add: round_trip_boolean is_true_def)
  show "extractValue (createTypedValue date_parse (JInt 42) ''integer'') ''integer''
     = JStr ''42''"
    by (simp add: round_trip_number num_to_string_42)
  show "extractValue (createTypedValue date_parse
          (extractValue (createTypedValue date_parse v dt) dt) dt) dt
        = extractValue (createTypedValue date_parse v dt) dt" if "dt \<noteq> ''datetime''"
    using that by (rule round_trip_idempotent)
  show "extractValue (createTypedValue date_parse (JStr s) dt) dt = JStr s"
    if "dt \<in> {''url'', ''integer'', ''double''}"
    using that round_trip_url [of date_parse "JStr s"] round_trip_number [of dt date_parse "JStr s"]
    by auto
  show "extractValue (createTypedValue date_parse (JStr s) ''boolean'') ''boolean'' = JStr s"
    if "s \<in> {''true'', ''false''}"
    using that by (auto simp: round_trip_boolean is_true_def)
  show "extractValue (createTypedValue date_parse (JStr s) ''datetime'') ''datetime''
     = JStr (num_to_string (date_parse (JStr s)))"
    by (simp add: round_trip_datetime)
qed

text \<open>
  The string \<^verbatim>\<open>"42"\<close> that came out of the first round is kept by a second one, and so
  is \<^verbatim>\<open>"false"\<close> by the boolean kind.
\<close>

theorem codec_round_trip_witness:
  "extractValue (createTypedValue unparsed_date
      (extractValue (createTypedValue unparsed_date (JInt 42) ''integer'') ''integer'')
      ''integer'') ''integer''
     = JStr ''42'' \<and>
   extractValue (createTypedValue unparsed_date (JStr ''42'') ''integer'') ''integer''
     = JStr ''42'' \<and>
   extractValue (createTypedValue unparsed_date (JStr ''false'') ''boolean'') ''boolean''
     = JStr ''false''"
  using codec_round_trip [of unparsed_date "''integer''" "JInt 42" "''42''"]
    codec_round_trip [of unparsed_date "''integer''" "JInt 42" "''false''"]
  by simp

text \<open>
  Claim C2 as stated says that decoding the encoding of 42 yields 42. It yields a
  string, which is not the number.
\<close>

theorem integer_round_trip_counterexample:
  "extractValue (createTypedValue unparsed_date (JInt 42) ''integer'') ''integer'' \<noteq> JInt 42"
  by (simp add: round_trip_number)

text \<open>
  Claim C3, on the three places that encode an integer. \<^verbatim>\<open>handleFieldChange\<close> writes
  the string of \<^verbatim>\<open>parseInt\<close> under the XSD \<^bold>\<open>double\<close> tag, for every input: the edit of
  a top-level integer field to \<^verbatim>\<open>"42"\<close> stores a double. \<^verbatim>\<open>createTypedValue\<close> writes the
  integer tag and the string of the input as it is, without \<^verbatim>\<open>parseInt\<close>: \<^verbatim>\<open>"abc"\<close> stays
  \<^verbatim>\<open>"abc"\<close> where \<^verbatim>\<open>parseInt\<close> would give \<^verbatim>\<open>NaN\<close>. Only the \<^verbatim>\<open>onChange\<close> of a fieldset child
  writes what the claim says, the integer tag and the string of \<^verbatim>\<open>parseInt\<close>, \<^verbatim>\<open>"NaN"\<close>
  for an input that is no numeral.
\<close>

theorem integer_encoding_paths:
  "form_newValue date_parse v ''integer'' ty = tagged xsd_double (num_to_string (parseInt v)) \<and>
   form_newValue date_parse v ''integer'' ty \<noteq> tagged xsd_integer (num_to_string (parseInt v)) \<and>
   handleFieldChange unparsed_date ''quantity'' (JStr ''42'') ''integer'' ''integer'' (JObj [])
     = JObj [(''quantity'', tagged xsd_double ''42'')] \<and>
   createTypedValue date_parse (JStr s) ''integer'' = tagged xsd_integer s \<and>
   createTypedValue unparsed_date (JStr ''abc'') ''integer'' = tagged xsd_integer ''abc'' \<and>
   num_to_string (parseInt (JStr ''abc'')) = ''NaN'' \<and>
   processedValue date_parse ''integer'' v = tagged xsd_integer (num_to_string (parseInt v)) \<and>
   processedValue unparsed_date ''integer'' (JStr ''abc'') = tagged xsd_integer ''NaN''"
proof -
  have p: "num_to_string (parseInt (JStr ''42'')) = ''42''"
      "num_to_string (parseInt (JStr ''abc'')) = ''NaN''"
    by code_simp+
  have f: "form_newValue date_parse v ''integer'' ty
             = tagged xsd_double (num_to_string (parseInt v))" for date_parse v ty
    by (simp add: form_newValue_def)
  have h: "handleFieldChange unparsed_date ''quantity'' (JStr ''42'') ''integer'' ''integer'' (JObj [])
     = JObj [(''quantity'', tagged xsd_double ''42'')]"
    by (simp add: handleFieldChange_def is_array_def spread_def f p)
  have c: "createTypedValue date_parse (JStr s) ''integer'' = tagged xsd_integer s"
    for date_parse s
    by (simp add: createTypedValue_def)
  have q: "processedValue date_parse ''integer'' v = tagged xsd_integer (num_to_string (parseInt v))"
    for date_parse v
    by (simp add: processedValue_def)
  show ?thesis
    using f h c q p xsd_double_not_integer by simp
qed

text \<open>
  Claim C4, as the code has it. A column whose embedded schema cannot be loaded is
  not left out: it stays at its place as a \<^verbatim>\<open>fieldset\<close> descriptor whose \<^verbatim>\<open>fields\<close> are
  unset, and the console receives the error. Such a column never keeps resolution
  from returning (it returns exactly when it returns without these columns), the
  names of the result are the names of the columns, in order, and every sibling is
  resolved: a plain or \<^verbatim>\<open>Enum\<close> column as its branch says, an embedded column that loads
  with the descriptors of its schema's columns.
\<close>

theorem failing_embedded_column_kept:
  "((generateFormFields store fuel cs = None) =
      (generateFormFields store fuel (filter (\<lambda>c. \<not> load_fails store c) cs) = None)) \<and>
   (generateFormFields store fuel cs = Some (fs, lg) \<longrightarrow>
      map name fs = map col_name cs \<and>
      (\<forall>i<length cs. load_fails store (cs ! i) \<longrightarrow>
         fs ! i = embedded_field (cs ! i) None \<and> dataType (fs ! i) = ''fieldset'' \<and>
         fields (fs ! i) = None \<and> EmbeddedSchemaError (col_type (cs ! i)) \<in> set lg) \<and>
      (\<forall>i<length cs. col_schemaType (cs ! i) \<noteq> ''Embedded'' \<longrightarrow>
         fs ! i = (if col_schemaType (cs ! i) = ''Enum'' then enum_field (cs ! i)
                   else plain_field (cs ! i))) \<and>
      (\<forall>i<length cs. \<forall>sub.
         col_schemaType (cs ! i) = ''Embedded'' \<and> store (col_type (cs ! i)) = Some sub \<longrightarrow>
         (\<exists>n subfs sublg. fuel = Suc n \<and> generateFormFields store n sub = Some (subfs, sublg) \<and>
            fs ! i = embedded_field (cs ! i) (Some subfs))))"
proof (intro conjI impI)
  show "(generateFormFields store fuel cs = None) =
      (generateFormFields store fuel (filter (\<lambda>c. \<not> load_fails store c) cs) = None)"
    by (rule generateFormFields_skip_failing)
next
  assume r: "generateFormFields store fuel cs = Some (fs, lg)"
  show "map name fs = map col_name cs"
    using r by (rule generateFormFields_names)
  show "\<forall>i<length cs. load_fails store (cs ! i) \<longrightarrow>
         fs ! i = embedded_field (cs ! i) None \<and> dataType (fs ! i) = ''fieldset'' \<and>
         fields (fs ! i) = None \<and> EmbeddedSchemaError (col_type (cs ! i)) \<in> set lg"
  proof (intro allI impI)
    fix i assume "i < length cs" "load_fails store (cs ! i)"
    then have "fs ! i = embedded_field (cs ! i) None \<and>
        EmbeddedSchemaError (col_type (cs ! i)) \<in> set lg"
      using generateFormFields_nth_failed [OF r, of i] by (simp add: load_fails_def)
    then show "fs ! i = embedded_field (cs ! i) None \<and> dataType (fs ! i) = ''fieldset'' \<and>
         fields (fs ! i) = None \<and> EmbeddedSchemaError (col_type (cs ! i)) \<in> set lg"
      by (simp add: embedded_field_def)
  qed
  show "\<forall>i<length cs. col_schemaType (cs ! i) \<noteq> ''Embedded'' \<longrightarrow>
         fs ! i = (if col_schemaType (cs ! i) = ''Enum'' then enum_field (cs ! i)
                   else plain_field (cs ! i))"
    using generateFormFields_nth_plain [OF r] by blast
  show "\<forall>i<length cs. \<forall>sub.
         col_schemaType (cs ! i) = ''Embedded'' \<and> store (col_type (cs ! i)) = Some sub \<longrightarrow>
         (\<exists>n subfs sublg. fuel = Suc n \<and> generateFormFields store n sub = Some (subfs, sublg) \<and>
            fs ! i = embedded_field (cs ! i) (Some subfs))"
    using generateFormFields_nth_embedded [OF r] by blast
qed

text \<open>
  One column whose schema is missing, followed by a reference column: both are in the
  result.
\<close>

theorem failing_embedded_column_kept_witness:
  "load_fails no_schemas dimensions_column \<and>
   generateFormFields no_schemas 0 [dimensions_column, consignment_column] \<noteq> None \<and>
   map name [embedded_field dimensions_column None, plain_field consignment_column]
     = [''dimensions'', ''consignment''] \<and>
   fields (embedded_field dimensions_column None) = None \<and>
   EmbeddedSchemaError ''Dimensions'' \<in> set [EmbeddedSchemaError ''Dimensions'']"
proof -
  have r: "generateFormFields no_schemas 0 [dimensions_column, consignment_column]
     = Some ([embedded_field dimensions_column None, plain_field consignment_column],
             [EmbeddedSchemaError ''Dimensions''])"
    by (simp add: dimensions_column_def consignment_column_def no_schemas_def)
  have l: "load_fails no_schemas dimensions_column"
    by (simp add: load_fails_def dimensions_column_def no_schemas_def)
  have names: "map col_name [dimensions_column, consignment_column]
     = [''dimensions'', ''consignment'']"
    by (simp add: dimensions_column_def consignment_column_def)
  from failing_embedded_column_kept
         [of no_schemas 0 "[dimensions_column, consignment_column]"
             "[embedded_field dimensions_column None, plain_field consignment_column]"
             "[EmbeddedSchemaError ''Dimensions'']"] r
  have "map name [embedded_field dimensions_column None, plain_field consignment_column]
     = map col_name [dimensions_column, consignment_column]"
    by blast
  with r l names show ?thesis
    by (simp add: embedded_field_def)
qed

text \<open>
  Claim C4 as stated says that the failing field is omitted. With no schema to load,
  the column \<^verbatim>\<open>dimensions\<close> is still the first field of the result.
\<close>

theorem failing_embedded_column_omitted_counterexample:
  "load_fails no_schemas dimensions_column \<and>
   map name (fst (the (generateFormFields no_schemas 0 [dimensions_column, consignment_column])))
     = [''dimensions'', ''consignment'']"
  by (simp add: load_fails_def dimensions_column_def consignment_column_def no_schemas_def
        embedded_field_def plain_field_def)

text \<open>
  Claim C5, as the code has it. \<^verbatim>\<open>loadReferenceOptions\<close>, run with the dropdown open,
  ends with \<^verbatim>\<open>loading\<close> false and raises the direct-input flag when the value is
  non-empty and matches no \<^verbatim>\<open>@id\<close> of the options it stored (none, when loading
  failed); otherwise it leaves the flag as it was. The effect on \<^verbatim>\<open>value\<close>,
  \<^verbatim>\<open>referenceOptions\<close> and \<^verbatim>\<open>loading\<close> raises the flag of a reference field under the same
  condition when nothing is loading, and otherwise changes nothing: a value that
  matches an option keeps the flag it finds, raised or not. The effect never touches
  the options, \<^verbatim>\<open>loading\<close> or \<^verbatim>\<open>dropdownOpen\<close>, and the value is no part of the state
  either function returns.
\<close>

theorem direct_input_flag_set_not_cleared:
  "(dropdownOpen st \<longrightarrow>
      loading (fst (loadReferenceOptions c g f v st)) = False \<and>
      (truthy v \<and> \<not> valueExists (referenceOptions (fst (loadReferenceOptions c g f v st))) v
         \<longrightarrow> useDirectInput (fst (loadReferenceOptions c g f v st))) \<and>
      (\<not> truthy v \<or> valueExists (referenceOptions (fst (loadReferenceOptions c g f v st))) v
         \<longrightarrow> useDirectInput (fst (loadReferenceOptions c g f v st)) = useDirectInput st)) \<and>
   (dataType f = ''url'' \<and> \<not> loading st \<and> truthy v \<and> \<not> valueExists (referenceOptions st) v
      \<longrightarrow> useDirectInput (directInputEffect f v st)) \<and>
   (dataType f \<noteq> ''url'' \<or> loading st \<or> \<not> truthy v \<or> valueExists (referenceOptions st) v
      \<longrightarrow> directInputEffect f v st = st) \<and>
   referenceOptions (directInputEffect f v st) = referenceOptions st \<and>
   loading (directInputEffect f v st) = loading st \<and>
   dropdownOpen (directInputEffect f v st) = dropdownOpen st"
  using loadReferenceOptions_flag [where st = st and c = c and g = g and f = f and v = v]
  by (auto simp: directInputEffect_def)

text \<open>
  With the options \<^verbatim>\<open>KGM\<close> and \<^verbatim>\<open>MTR\<close>: the value \<^verbatim>\<open>LTR\<close> raises the flag when the
  options arrive; the value \<^verbatim>\<open>KGM\<close> leaves it down, a later change to \<^verbatim>\<open>LTR\<close> raises
  it, and the effect changes nothing while the value is \<^verbatim>\<open>KGM\<close>.
\<close>

theorem direct_input_flag_set_not_cleared_witness:
  "useDirectInput (fst (loadReferenceOptions (Some (JObj example_codelists)) no_catalog
                          (enum_field unit_column) (JStr ''LTR'') opened)) \<and>
   useDirectInput (fst (loadReferenceOptions (Some (JObj example_codelists)) no_catalog
                          (enum_field unit_column) (JStr ''KGM'') opened)) = False \<and>
   useDirectInput (directInputEffect (enum_field unit_column) (JStr ''LTR'')
        (fst (loadReferenceOptions (Some (JObj example_codelists)) no_catalog
               (enum_field unit_column) (JStr ''KGM'') opened))) \<and>
   directInputEffect (enum_field unit_column) (JStr ''KGM'')
        (fst (loadReferenceOptions (Some (JObj example_codelists)) no_catalog
               (enum_field unit_column) (JStr ''KGM'') opened))
     = fst (loadReferenceOptions (Some (JObj example_codelists)) no_catalog
               (enum_field unit_column) (JStr ''KGM'') opened)"
proof -
  let ?c = "Some (JObj example_codelists)"
  let ?f = "enum_field unit_column"
  let ?ltr = "fst (loadReferenceOptions ?c no_catalog ?f (JStr ''LTR'') opened)"
  let ?kgm = "fst (loadReferenceOptions ?c no_catalog ?f (JStr ''KGM'') opened)"
  have o: "dropdownOpen opened" "useDirectInput opened = False"
    by (simp_all add: opened_def initial_field_state_def)
  have dt: "dataType ?f = ''url''"
    by (simp add: enum_field_def)
  have ltr: "truthy (JStr ''LTR'')" "\<not> valueExists (referenceOptions ?ltr) (JStr ''LTR'')"
    by code_simp+
  have kgm: "truthy (JStr ''KGM'')" "valueExists (referenceOptions ?kgm) (JStr ''KGM'')"
      "\<not> valueExists (referenceOptions ?kgm) (JStr ''LTR'')"
    by code_simp+
  have 1: "useDirectInput ?ltr"
    using direct_input_flag_set_not_cleared [of opened ?c no_catalog ?f "JStr ''LTR''"] o ltr
    by blast
  have 2: "useDirectInput ?kgm = False" "loading ?kgm = False"
    using direct_input_flag_set_not_cleared [of opened ?c no_catalog ?f "JStr ''KGM''"] o kgm
    by simp_all
  have 3: "useDirectInput (directInputEffect ?f (JStr ''LTR'') ?kgm)"
    using direct_input_flag_set_not_cleared [of ?kgm _ _ ?f "JStr ''LTR''"] dt 2 ltr(1) kgm(3)
    by blast
  have 4: "directInputEffect ?f (JStr ''KGM'') ?kgm = ?kgm"
    using direct_input_flag_set_not_cleared [of ?kgm _ _ ?f "JStr ''KGM''"] kgm(2)
    by blast
  from 1 2 3 4 show ?thesis by simp
qed

text \<open>
  Claim C5 as stated says that the flag is false when the value matches an option.
  The options are loaded while the value is \<^verbatim>\<open>LTR\<close>, which raises the flag; the value
  then becomes \<^verbatim>\<open>KGM\<close>, an option, and the effect runs: the flag is still raised.
\<close>

theorem direct_input_flag_counterexample:
  "valueExists
     (referenceOptions (directInputEffect (enum_field unit_column) (JStr ''KGM'')
        (fst (loadReferenceOptions (Some (JObj example_codelists)) no_catalog
               (enum_field unit_column) (JStr ''LTR'') opened))))
     (JStr ''KGM'') \<and>
   useDirectInput (directInputEffect (enum_field unit_column) (JStr ''KGM'')
        (fst (loadReferenceOptions (Some (JObj example_codelists)) no_catalog
               (enum_field unit_column) (JStr ''LTR'') opened)))"
  by code_simp

text \<open>
  Claim C6, as the code has it. Both decoders are total: truthiness, \<^verbatim>\<open>||\<close>, a
  property read on a value that is not \<^verbatim>\<open>null\<close> or \<^verbatim>\<open>undefined\<close>, \<^verbatim>\<open>?.\<close>, \<^verbatim>\<open>===\<close>,
  \<^verbatim>\<open>parseInt\<close> and \<^verbatim>\<open>parseFloat\<close> throw on no JSON value. \<^verbatim>\<open>extractValue\<close> gives the empty
  string for every data type when the typed value is falsy, and for the reference
  and the tagged kinds when \<^verbatim>\<open>@id\<close>, respectively \<^verbatim>\<open>@value\<close>, is absent or falsy; it gives
  that property otherwise, unparsed. The extraction of the form (lines 570-590), for
  a field that is not an array, gives the empty string for \<^verbatim>\<open>url\<close> and
  \<^verbatim>\<open>datetime-local\<close>, the number 0 for \<^verbatim>\<open>integer\<close> and \<^verbatim>\<open>double\<close> and \<^verbatim>\<open>false\<close> for \<^verbatim>\<open>boolean\<close>
  when the entry or its key is absent or falsy; otherwise the property itself, parsed
  by \<^verbatim>\<open>parseInt\<close> or \<^verbatim>\<open>parseFloat\<close> for the two numeric kinds (so \<^verbatim>\<open>NaN\<close> when it is no
  numeral) and compared with \<^verbatim>\<open>"true"\<close> for \<^verbatim>\<open>boolean\<close>.
\<close>

theorem decode_defaults:
  "(\<not> truthy t \<longrightarrow> extractValue t dt = JStr []) \<and>
   (truthy t \<and> \<not> truthy (get_prop t ''@id'') \<longrightarrow> extractValue t ''url'' = JStr []) \<and>
   (truthy t \<and> truthy (get_prop t ''@id'') \<longrightarrow> extractValue t ''url'' = get_prop t ''@id'') \<and>
   (dt \<in> {''boolean'', ''integer'', ''double'', ''datetime''} \<and> truthy t \<and>
      \<not> truthy (get_prop t ''@value'') \<longrightarrow> extractValue t dt = JStr []) \<and>
   (dt \<in> {''boolean'', ''integer'', ''double'', ''datetime''} \<and> truthy t \<and>
      truthy (get_prop t ''@value'') \<longrightarrow> extractValue t dt = get_prop t ''@value'') \<and>
   (\<not> array f \<and> dataType f = ''url'' \<and>
      \<not> truthy (opt_get (get_prop data (name f)) ''@id'') \<longrightarrow>
      form_field_value f data = JStr []) \<and>
   (\<not> array f \<and> dataType f = ''url'' \<and>
      truthy (opt_get (get_prop data (name f)) ''@id'') \<longrightarrow>
      form_field_value f data = opt_get (get_prop data (name f)) ''@id'') \<and>
   (\<not> array f \<and> \<not> truthy (opt_get (get_prop data (name f)) ''@value'') \<longrightarrow>
      (dataType f = ''datetime-local'' \<longrightarrow> form_field_value f data = JStr []) \<and>
      (dataType f = ''integer'' \<longrightarrow> form_field_value f data = JInt 0) \<and>
      (dataType f = ''double'' \<longrightarrow> form_field_value f data = JInt 0) \<and>
      (dataType f = ''boolean'' \<longrightarrow> form_field_value f data = JBool False)) \<and>
   (\<not> array f \<and> truthy (opt_get (get_prop data (name f)) ''@value'') \<longrightarrow>
      (dataType f = ''datetime-local'' \<longrightarrow>
         form_field_value f data = opt_get (get_prop data (name f)) ''@value'') \<and>
      (dataType f = ''integer'' \<longrightarrow>
         form_field_value f data
           = JNum (parseInt (opt_get (get_prop data (name f)) ''@value''))) \<and>
      (dataType f = ''double'' \<longrightarrow>
         form_field_value f data
           = JNum (parseFloat (opt_get (get_prop data (name f)) ''@value''))) \<and>
      (dataType f = ''boolean'' \<longrightarrow>
         form_field_value f data
           = JBool (opt_get (get_prop data (name f)) ''@value'' = JStr ''true'')))"
proof -
  have 1: "\<not> truthy t \<longrightarrow> extractValue t dt = JStr []"
    by (simp add: extractValue_absent)
  have 2: "truthy t \<and> \<not> truthy (get_prop t ''@id'') \<longrightarrow> extractValue t ''url'' = JStr []"
    by (simp add: extractValue_url js_or_def)
  have 3: "truthy t \<and> truthy (get_prop t ''@id'') \<longrightarrow> extractValue t ''url'' = get_prop t ''@id''"
    by (simp add: extractValue_url js_or_def)
  have 4: "dt \<in> {''boolean'', ''integer'', ''double'', ''datetime''} \<and> truthy t \<and>
      \<not> truthy (get_prop t ''@value'') \<longrightarrow> extractValue t dt = JStr []"
    using extractValue_tagged [of t dt] by (simp add: js_or_def)
  have 5: "dt \<in> {''boolean'', ''integer'', ''double'', ''datetime''} \<and> truthy t \<and>
      truthy (get_prop t ''@value'') \<longrightarrow> extractValue t dt = get_prop t ''@value''"
    using extractValue_tagged [of t dt] by (simp add: js_or_def)
  have 6: "\<not> array f \<and> dataType f = ''url'' \<and>
      \<not> truthy (opt_get (get_prop data (name f)) ''@id'') \<longrightarrow>
      form_field_value f data = JStr []"
    using form_field_value_cases(1) [of f data] by (simp add: js_or_def)
  have 7: "\<not> array f \<and> dataType f = ''url'' \<and>
      truthy (opt_get (get_prop data (name f)) ''@id'') \<longrightarrow>
      form_field_value f data = opt_get (get_prop data (name f)) ''@id''"
    using form_field_value_cases(1) [of f data] by (simp add: js_or_def)
  have 8: "\<not> array f \<and> \<not> truthy (opt_get (get_prop data (name f)) ''@value'') \<longrightarrow>
      (dataType f = ''datetime-local'' \<longrightarrow> form_field_value f data = JStr []) \<and>
      (dataType f = ''integer'' \<longrightarrow> form_field_value f data = JInt 0) \<and>
      (dataType f = ''double'' \<longrightarrow> form_field_value f data = JInt 0) \<and>
      (dataType f = ''boolean'' \<longrightarrow> form_field_value f data = JBool False)"
    using form_field_value_cases(2-5) [of f data]
    by (auto simp: js_or_def parse_zero)
  have 9: "\<not> array f \<and> truthy (opt_get (get_prop data (name f)) ''@value'') \<longrightarrow>
      (dataType f = ''datetime-local'' \<longrightarrow>
         form_field_value f data = opt_get (get_prop data (name f)) ''@value'') \<and>
      (dataType f = ''integer'' \<longrightarrow>
         form_field_value f data
           = JNum (parseInt (opt_get (get_prop data (name f)) ''@value''))) \<and>
      (dataType f = ''double'' \<longrightarrow>
         form_field_value f data
           = JNum (parseFloat (opt_get (get_prop data (name f)) ''@value''))) \<and>
      (dataType f = ''boolean'' \<longrightarrow>
         form_field_value f data
           = JBool (opt_get (get_prop data (name f)) ''@value'' = JStr ''true''))"
    using form_field_value_cases(2-5) [of f data]
    by (simp add: js_or_def)
  from 1 2 3 4 5 6 7 8 9 show ?thesis
    by (intro conjI)
qed

text \<open>
  An absent integer is the empty string for \<^verbatim>\<open>extractValue\<close> and 0 for the form; a
  present one is its string for the first and its number for the second; an absent
  reference is the empty string.
\<close>

theorem decode_defaults_witness:
  "extractValue JUndefined ''integer'' = JStr [] \<and>
   extractValue (JObj [(''@type'', JStr xsd_integer)]) ''integer'' = JStr [] \<and>
   extractValue (tagged xsd_integer ''7'') ''integer'' = JStr ''7'' \<and>
   form_field_value (plain_field x_column) (JObj []) = JInt 0 \<and>
   form_field_value (plain_field x_column) (JObj [(''x'', tagged xsd_integer ''7'')]) = JInt 7 \<and>
   form_field_value (plain_field consignment_column) (JObj []) = JStr []"
proof -
  have x: "\<not> array (plain_field x_column)" "dataType (plain_field x_column) = ''integer''"
      "name (plain_field x_column) = ''x''"
    by (simp_all add: plain_field_def x_column_def toLowerCase_def lower_char_def
          basicTypes_def basic_dataType_def)
  have c: "\<not> array (plain_field consignment_column)"
      "dataType (plain_field consignment_column) = ''url''"
      "name (plain_field consignment_column) = ''consignment''"
    by (simp_all add: plain_field_def consignment_column_def toLowerCase_def lower_char_def
          basicTypes_def)
  have p: "parseInt (JStr ''7'') = Dec 7 0"
    by code_simp
  have a: "extractValue JUndefined ''integer'' = JStr []"
    using decode_defaults [of JUndefined "''integer''"] by simp
  have b: "extractValue (JObj [(''@type'', JStr xsd_integer)]) ''integer'' = JStr []"
    using decode_defaults [of "JObj [(''@type'', JStr xsd_integer)]" "''integer''"]
    by (simp add: get_prop_def)
  have d: "extractValue (tagged xsd_integer ''7'') ''integer'' = JStr ''7''"
    using decode_defaults [of "tagged xsd_integer ''7''" "''integer''"] by simp
  have e: "form_field_value (plain_field x_column) (JObj []) = JInt 0"
    using decode_defaults [of _ _ "plain_field x_column" "JObj []"] x
    by (simp add: get_prop_def opt_get_def)
  have g: "form_field_value (plain_field x_column) (JObj [(''x'', tagged xsd_integer ''7'')])
      = JInt 7"
    using decode_defaults [of _ _ "plain_field x_column" "JObj [(''x'', tagged xsd_integer ''7'')]"] x p
    by (simp add: get_prop_def opt_get_def tagged_def)
  have h: "form_field_value (plain_field consignment_column) (JObj []) = JStr []"
    using decode_defaults [of _ _ "plain_field consignment_column" "JObj []"] c
    by (simp add: get_prop_def opt_get_def)
  from a b d e g h show ?thesis by simp
qed

text \<open>
  Claim C6 as stated says that an absent integer decodes to \<^verbatim>\<open>"0"\<close>, parsed. For
  \<^verbatim>\<open>extractValue\<close> it is neither the number nor that string.
\<close>

theorem integer_default_counterexample:
  "extractValue JUndefined ''integer'' \<noteq> JInt 0 \<and>
   extractValue (JObj [(''@type'', JStr xsd_integer)]) ''integer'' \<noteq> JInt 0 \<and>
   extractValue JUndefined ''integer'' \<noteq> JStr ''0''"
  by (simp add: extractValue_def get_prop_def js_or_def)





text \<open>
  Claim C9. From any state the mounted form has reached, a burst of edits whose gaps
  are all shorter than the window of 500, followed by a pause of at least the window,
  adds exactly one call of \<^verbatim>\<open>onSubmit\<close>, with the form data after the last edit of the
  burst: no state in between is submitted. When the component is unmounted while the
  window is still running, the burst adds no call at all, whatever happens later.
\<close>

theorem debounced_submission:
  assumes "mounted (run date_parse (mount initialData) earlier)"
    and "list_all (\<lambda>(gap, e). gap < window) rest"
    and "window \<le> quiet"
    and "gap < window"
  shows
    "submitted (run date_parse (mount initialData) (earlier @ burst e0 rest @ [Wait quiet]))
       = submitted (run date_parse (mount initialData) earlier)
         @ [apply_edits date_parse (snd (formData (run date_parse (mount initialData) earlier)))
              (e0 # map snd rest)] \<and>
     submitted (run date_parse (mount initialData)
                  (earlier @ burst e0 rest @ [Wait gap, Unmount] @ later))
       = submitted (run date_parse (mount initialData) earlier)"
proof -
  let ?s = "run date_parse (mount initialData) earlier"
  let ?b = "run date_parse ?s (burst e0 rest)"
  have inv: "timer_inv ?s"
    by (simp add: timer_inv_run timer_inv_mount)
  note b = run_burst [OF inv assms(1,2), of date_parse e0]
  have quiet: "submitted (wait quiet ?b) = submitted ?b @ [snd (formData ?b)]"
    using b assms(3) by (intro wait_fires) simp_all
  have 1: "submitted (run date_parse (mount initialData) (earlier @ burst e0 rest @ [Wait quiet]))
       = submitted ?s @ [apply_edits date_parse (snd (formData ?s)) (e0 # map snd rest)]"
    using b quiet by (simp add: run_append step_mounted)
  have pending: "submitted (wait gap ?b) = submitted ?b" "mounted (wait gap ?b)"
    using b assms(4) wait_pending [of ?b gap] by simp_all
  have "run date_parse ?b ([Wait gap, Unmount] @ later) = unmount (wait gap ?b)"
    using b pending by (simp add: step_mounted run_unmounted unmount_def)
  then have 2: "submitted (run date_parse (mount initialData)
                  (earlier @ burst e0 rest @ [Wait gap, Unmount] @ later))
       = submitted ?s"
    using b pending by (simp add: run_append unmount_def)
  from 1 2 show ?thesis by simp
qed

text \<open>
  Five keystrokes within 80 time units: after a pause of 500 the form has submitted
  the initial data, at mounting, and the data after the fifth; unmounted after 100,
  it has submitted the initial data only.
\<close>

theorem debounced_submission_witness:
  "submitted (run unparsed_date (mount JUndefined)
     (burst (''note'', JStr ''a'', ''text'', ''string'') note_edits @ [Wait 500]))
     = [JObj [], JObj [(''note'', JStr ''abcde'')]] \<and>
   submitted (run unparsed_date (mount JUndefined)
     (burst (''note'', JStr ''a'', ''text'', ''string'') note_edits
        @ [Wait 100, Unmount, Wait 1000]))
     = [JObj []]"
proof -
  have m: "mounted (run unparsed_date (mount JUndefined) [])"
      "submitted (run unparsed_date (mount JUndefined) []) = [JObj []]"
      "snd (formData (run unparsed_date (mount JUndefined) [])) = JObj []"
    by (simp_all add: mount_def js_or_def Let_def)
  have g: "list_all (\<lambda>(gap, e). gap < window) note_edits"
    by (simp add: note_edits_def window_def)
  have w: "window \<le> 500" "100 < window"
    by (simp_all add: window_def)
  have a: "apply_edits unparsed_date (JObj [])
             ((''note'', JStr ''a'', ''text'', ''string'') # map snd note_edits)
           = JObj [(''note'', JStr ''abcde'')]"
    by (simp add: apply_edits_def apply_edit_def note_edits_def handleFieldChange_def
          form_newValue_def is_array_def spread_def)
  from debounced_submission
         [OF m(1) g w, where ?e0.0 = "(''note'', JStr ''a'', ''text'', ''string'')"
            and later = "[Wait 1000]"]
    m(2,3) a
  show ?thesis by simp
qed

text \<open>
  Claim C10. An array-valued field works on the normalised value: an array as it is,
  any other truthy value as the one element of a new array, a falsy value as the
  empty array. Add Item appends the encoding of the empty string; at an index within
  the array, the item shown is the decoding of the element there, its \<^verbatim>\<open>onChange\<close>
  replaces that element by the encoding of the new value and leaves the others, and
  the remove button takes that element out and leaves the order of the others.
\<close>

theorem array_field_operations:
  "arrayValue (JArr xs) = xs \<and>
   (\<not> is_array v \<and> truthy v \<longrightarrow> arrayValue v = [v]) \<and>
   (\<not> truthy v \<longrightarrow> arrayValue v = []) \<and>
   (\<exists>ys. array_add date_parse f v = JArr ys \<and>
      length ys = Suc (length (arrayValue v)) \<and>
      (\<forall>j<length (arrayValue v). ys ! j = arrayValue v ! j) \<and>
      ys ! length (arrayValue v) = createTypedValue date_parse (JStr []) (dataType f)) \<and>
   (i < length (arrayValue v) \<longrightarrow>
      array_item_value f v i = extractValue (arrayValue v ! i) (dataType f) \<and>
      (\<exists>ys. array_item_onChange date_parse f v i newValue = JArr ys \<and>
         length ys = length (arrayValue v) \<and>
         ys ! i = createTypedValue date_parse newValue (dataType f) \<and>
         (\<forall>j<length ys. j \<noteq> i \<longrightarrow> ys ! j = arrayValue v ! j)) \<and>
      (\<exists>ys. array_remove v i = JArr ys \<and>
         Suc (length ys) = length (arrayValue v) \<and>
         (\<forall>j<i. ys ! j = arrayValue v ! j) \<and>
         (\<forall>j<length ys. i \<le> j \<longrightarrow> ys ! j = arrayValue v ! Suc j)))"
proof (intro conjI impI)
  show "arrayValue (JArr xs) = xs"
    by (rule arrayValue_cases)
  show "arrayValue v = [v]" if "\<not> is_array v \<and> truthy v"
    using that by (simp add: arrayValue_cases)
  show "arrayValue v = []" if "\<not> truthy v"
    using that by (simp add: arrayValue_cases)
  show "\<exists>ys. array_add date_parse f v = JArr ys \<and>
      length ys = Suc (length (arrayValue v)) \<and>
      (\<forall>j<length (arrayValue v). ys ! j = arrayValue v ! j) \<and>
      ys ! length (arrayValue v) = createTypedValue date_parse (JStr []) (dataType f)"
    by (simp add: array_add_def nth_append)
next
  assume i: "i < length (arrayValue v)"
  show "array_item_value f v i = extractValue (arrayValue v ! i) (dataType f)"
    by (simp add: array_item_value_def)
  show "\<exists>ys. array_item_onChange date_parse f v i newValue = JArr ys \<and>
         length ys = length (arrayValue v) \<and>
         ys ! i = createTypedValue date_parse newValue (dataType f) \<and>
         (\<forall>j<length ys. j \<noteq> i \<longrightarrow> ys ! j = arrayValue v ! j)"
    using i by (simp add: array_item_onChange_def set_index_def)
  show "\<exists>ys. array_remove v i = JArr ys \<and>
         Suc (length ys) = length (arrayValue v) \<and>
         (\<forall>j<i. ys ! j = arrayValue v ! j) \<and>
         (\<forall>j<length ys. i \<le> j \<longrightarrow> ys ! j = arrayValue v ! Suc j)"
    using splice_one_nth [OF i] by (simp add: array_remove_def)
qed

text \<open>
  A single reference and \<^verbatim>\<open>undefined\<close> are normalised; in a two-element array the
  first item is shown, edited and removed, and an item is added.
\<close>

theorem array_field_operations_witness:
  "arrayValue (JObj [(''@id'', JStr ''A'')]) = [JObj [(''@id'', JStr ''A'')]] \<and>
   arrayValue JUndefined = [] \<and>
   array_item_value (plain_field pieces_column)
     (JArr [JObj [(''@id'', JStr ''A'')], JObj [(''@id'', JStr ''B'')]]) 0 = JStr ''A'' \<and>
   array_item_onChange unparsed_date (plain_field pieces_column)
     (JArr [JObj [(''@id'', JStr ''A'')], JObj [(''@id'', JStr ''B'')]]) 0 (JStr ''C'')
     = JArr [JObj [(''@id'', JStr ''C'')], JObj [(''@id'', JStr ''B'')]] \<and>
   array_remove (JArr [JObj [(''@id'', JStr ''A'')], JObj [(''@id'', JStr ''B'')]]) 0
     = JArr [JObj [(''@id'', JStr ''B'')]] \<and>
   array_add unparsed_date (plain_field pieces_column)
     (JArr [JObj [(''@id'', JStr ''A'')], JObj [(''@id'', JStr ''B'')]])
     = JArr [JObj [(''@id'', JStr ''A'')], JObj [(''@id'', JStr ''B'')], JObj [(''@id'', JStr [])]]"
proof -
  have dt: "dataType (plain_field pieces_column) = ''url''"
    by (simp add: plain_field_def pieces_column_def toLowerCase_def lower_char_def basicTypes_def)
  have t: "truthy (JObj [(''@id'', JStr ''A'')])" "\<not> is_array (JObj [(''@id'', JStr ''A'')])"
      "\<not> truthy JUndefined"
    by (simp_all add: is_array_def)
  have a: "arrayValue (JArr [JObj [(''@id'', JStr ''A'')], JObj [(''@id'', JStr ''B'')]])
             = [JObj [(''@id'', JStr ''A'')], JObj [(''@id'', JStr ''B'')]]"
    using array_field_operations by blast
  have n: "arrayValue (JObj [(''@id'', JStr ''A'')]) = [JObj [(''@id'', JStr ''A'')]]"
    using array_field_operations [of _ "JObj [(''@id'', JStr ''A'')]"] t by blast
  have u: "arrayValue JUndefined = []"
    using array_field_operations [of _ JUndefined] t by blast
  show ?thesis
    using a n u dt
    by (simp add: array_item_value_def array_item_onChange_def array_remove_def array_add_def
          set_index_def splice_one_def createTypedValue_def extractValue_def get_prop_def js_or_def)
qed

end
